theory Spec2Isabelle
  imports Complex_Main "HOL-Library.Word"
begin

section \<open>Numbers, arrays and Python values\<close>

text \<open>
  The module \<^verbatim>\<open>pysteps/optflow/lucaskanade.py\<close> computes with numpy arrays of IEEE
  doubles. A double is modelled as a real number or one of the three non-finite values;
  rounding, overflow and the sign of zero are not modelled. The arithmetic below is the
  IEEE arithmetic on these values: an undefined operation (\<open>0/0\<close>, \<open>inf - inf\<close>,
  \<open>0 * inf\<close>) gives \<open>NaN\<close>, and numpy does not raise on it.
\<close>

datatype float = Finite real | PosInf | NegInf | NaN

definition isfinite :: "float \<Rightarrow> bool" where
  "isfinite f = (case f of Finite r \<Rightarrow> True | _ \<Rightarrow> False)"

definition fl_neg :: "float \<Rightarrow> float" where
  "fl_neg a = (case a of Finite r \<Rightarrow> Finite (- r) | PosInf \<Rightarrow> NegInf
     | NegInf \<Rightarrow> PosInf | NaN \<Rightarrow> NaN)"

definition fl_add :: "float \<Rightarrow> float \<Rightarrow> float" where
  "fl_add a b =
     (case a of
        NaN \<Rightarrow> NaN
      | Finite x \<Rightarrow> (case b of Finite y \<Rightarrow> Finite (x + y) | _ \<Rightarrow> b)
      | PosInf \<Rightarrow> (case b of NaN \<Rightarrow> NaN | NegInf \<Rightarrow> NaN | _ \<Rightarrow> PosInf)
      | NegInf \<Rightarrow> (case b of NaN \<Rightarrow> NaN | PosInf \<Rightarrow> NaN | _ \<Rightarrow> NegInf))"

definition fl_sub :: "float \<Rightarrow> float \<Rightarrow> float" where
  "fl_sub a b = fl_add a (fl_neg b)"

text \<open>The sign of a value that is not \<open>NaN\<close>: \<open>-1\<close>, \<open>0\<close> or \<open>1\<close>.\<close>

definition fl_sign :: "float \<Rightarrow> int" where
  "fl_sign a = (case a of Finite r \<Rightarrow> (if r < 0 then - 1 else if r = 0 then 0 else 1)
     | PosInf \<Rightarrow> 1 | NegInf \<Rightarrow> - 1 | NaN \<Rightarrow> 0)"

definition fl_inf :: "int \<Rightarrow> float" where
  "fl_inf s = (if s < 0 then NegInf else PosInf)"

definition fl_mul :: "float \<Rightarrow> float \<Rightarrow> float" where
  "fl_mul a b =
     (case (a, b) of
        (NaN, _) \<Rightarrow> NaN
      | (_, NaN) \<Rightarrow> NaN
      | (Finite x, Finite y) \<Rightarrow> Finite (x * y)
      | _ \<Rightarrow> (if fl_sign a * fl_sign b = 0 then NaN else fl_inf (fl_sign a * fl_sign b)))"

definition fl_div :: "float \<Rightarrow> float \<Rightarrow> float" where
  "fl_div a b =
     (case (a, b) of
        (NaN, _) \<Rightarrow> NaN
      | (_, NaN) \<Rightarrow> NaN
      | (Finite x, Finite y) \<Rightarrow>
          (if y \<noteq> 0 then Finite (x / y) else if x = 0 then NaN else fl_inf (fl_sign a))
      | (Finite x, _) \<Rightarrow> Finite 0
      | (_, Finite y) \<Rightarrow> fl_inf (if y < 0 then - fl_sign a else fl_sign a)
      | _ \<Rightarrow> NaN)"

text \<open>Comparison as numpy does it: every comparison with \<open>NaN\<close> is false.\<close>

definition fl_less :: "float \<Rightarrow> float \<Rightarrow> bool" where
  "fl_less a b =
     (case (a, b) of
        (NaN, _) \<Rightarrow> False
      | (_, NaN) \<Rightarrow> False
      | (Finite x, Finite y) \<Rightarrow> x < y
      | (NegInf, NegInf) \<Rightarrow> False
      | (NegInf, _) \<Rightarrow> True
      | (_, PosInf) \<Rightarrow> (a \<noteq> PosInf)
      | _ \<Rightarrow> False)"

text \<open>
  \<^verbatim>\<open>a.min()\<close> and \<^verbatim>\<open>a.max()\<close>: a \<open>NaN\<close> anywhere gives \<open>NaN\<close>, and an empty array
  raises.
\<close>

datatype error =
    ValueError string
  | IndexError
  | TypeError
  | AttributeError
  | UnboundLocalError
  | AxisError
  | NotModelled

definition fl_min2 :: "float \<Rightarrow> float \<Rightarrow> float" where
  "fl_min2 a b = (if a = NaN \<or> b = NaN then NaN else if fl_less b a then b else a)"

definition fl_max2 :: "float \<Rightarrow> float \<Rightarrow> float" where
  "fl_max2 a b = (if a = NaN \<or> b = NaN then NaN else if fl_less a b then b else a)"

definition amin :: "float list \<Rightarrow> error + float" where
  "amin xs = (case xs of [] \<Rightarrow> Inl (ValueError ''zero-size array to reduction operation'')
     | y # ys \<Rightarrow> Inr (foldl fl_min2 y ys))"

definition amax :: "float list \<Rightarrow> error + float" where
  "amax xs = (case xs of [] \<Rightarrow> Inl (ValueError ''zero-size array to reduction operation'')
     | y # ys \<Rightarrow> Inr (foldl fl_max2 y ys))"

text \<open>
  An array object: its shape and its buffer, row-major. The two element types the module
  meets are doubles and unsigned bytes (\<^verbatim>\<open>uint8\<close>).
\<close>

datatype buffer = Float64 "float list" | UInt8 "8 word list"

record ndarray =
  shape :: "nat list"
  data :: buffer

definition size_of :: "buffer \<Rightarrow> nat" where
  "size_of b = (case b of Float64 xs \<Rightarrow> length xs | UInt8 ws \<Rightarrow> length ws)"

text \<open>The elements of a buffer read as doubles.\<close>

definition as_floats :: "buffer \<Rightarrow> float list" where
  "as_floats b = (case b of Float64 xs \<Rightarrow> xs
     | UInt8 ws \<Rightarrow> map (\<lambda>w. Finite (real (unat w))) ws)"

text \<open>
  The values a keyword argument can hold, the keyword arguments as a dictionary (an
  association list read with \<^const>\<open>map_of\<close>), and \<^verbatim>\<open>kwargs.get(key, default)\<close>.
\<close>

datatype pyval =
    PyNone
  | PyBool bool
  | PyInt int
  | PyFloat real
  | PyStr string
  | PyTuple "pyval list"
  | PyArray ndarray

type_synonym kwargs = "(string \<times> pyval) list"

definition kwargs_get :: "kwargs \<Rightarrow> string \<Rightarrow> pyval \<Rightarrow> pyval" where
  "kwargs_get kw key dflt = (case map_of kw key of None \<Rightarrow> dflt | Some v \<Rightarrow> v)"

text \<open>
  A keyword argument read at the type the module documents for it. What Python does with
  a value of another type (it raises at some later use, or goes on) is not modelled.
\<close>

definition py_number :: "pyval \<Rightarrow> error + real" where
  "py_number v = (case v of PyInt i \<Rightarrow> Inr (real_of_int i) | PyFloat r \<Rightarrow> Inr r
     | PyBool b \<Rightarrow> Inr (if b then 1 else 0) | _ \<Rightarrow> Inl NotModelled)"

definition py_int :: "pyval \<Rightarrow> error + int" where
  "py_int v = (case v of PyInt i \<Rightarrow> Inr i | _ \<Rightarrow> Inl NotModelled)"

definition py_string :: "pyval \<Rightarrow> error + string" where
  "py_string v = (case v of PyStr s \<Rightarrow> Inr s | _ \<Rightarrow> Inl NotModelled)"

text \<open>Sequencing of two computations that may raise.\<close>

definition ebind :: "error + 'a \<Rightarrow> ('a \<Rightarrow> error + 'b) \<Rightarrow> error + 'b" where
  "ebind r f = (case r of Inl e \<Rightarrow> Inl e | Inr a \<Rightarrow> f a)"

section \<open>The pipeline's configuration and its validation\<close>

text \<open>
  The defaults of \<^verbatim>\<open>dense_lucaskanade\<close> (lines 90--105 and 113 of the module), each
  read from the keyword arguments under the key the source gives.
\<close>

record config =
  kw_max_corners_ST :: pyval
  kw_quality_level_ST :: pyval
  kw_min_distance_ST :: pyval
  kw_block_size_ST :: pyval
  kw_winsize_LK :: pyval
  kw_nr_levels_LK :: pyval
  kw_max_speed :: pyval
  kw_nr_IQR_outlier :: pyval
  kw_size_opening :: pyval
  kw_decl_grid :: pyval
  kw_min_nr_samples :: pyval
  kw_function :: pyval
  kw_k :: pyval
  kw_epsilon :: pyval
  kw_nchunks :: pyval
  kw_extra_vectors :: pyval
  kw_verbose :: pyval

definition defaults :: "kwargs \<Rightarrow> config" where
  "defaults kw =
     \<lparr> kw_max_corners_ST = kwargs_get kw ''max_corners_ST'' (PyInt 500),
       kw_quality_level_ST = kwargs_get kw ''quality_level_ST'' (PyFloat (1 / 10)),
       kw_min_distance_ST = kwargs_get kw ''min_distance_ST'' (PyInt 5),
       kw_block_size_ST = kwargs_get kw ''block_size_ST'' (PyInt 15),
       kw_winsize_LK = kwargs_get kw ''winsize_LK5'' (PyTuple [PyInt 50, PyInt 50]),
       kw_nr_levels_LK = kwargs_get kw ''nr_levels_LK'' (PyInt 2),
       kw_max_speed = kwargs_get kw ''max_speed'' (PyInt 10),
       kw_nr_IQR_outlier = kwargs_get kw ''nr_IQR_outlier'' (PyInt 3),
       kw_size_opening = kwargs_get kw ''size_opening'' (PyInt 3),
       kw_decl_grid = kwargs_get kw ''decl_grid'' (PyInt 20),
       kw_min_nr_samples = kwargs_get kw ''min_nr_samples'' (PyInt 2),
       kw_function = kwargs_get kw ''function'' (PyStr ''inverse''),
       kw_k = kwargs_get kw ''k'' (PyInt 20),
       kw_epsilon = kwargs_get kw ''epsilon'' PyNone,
       kw_nchunks = kwargs_get kw ''nchunks'' (PyInt 5),
       kw_extra_vectors = kwargs_get kw ''extra_vectors'' PyNone,
       kw_verbose = kwargs_get kw ''verbose'' (PyBool True) \<rparr>"

text \<open>Lines 82--87: the checks on the input array \<^verbatim>\<open>R\<close>.\<close>

definition check_R :: "ndarray \<Rightarrow> error + unit" where
  "check_R R =
     (if length (shape R) \<noteq> 3 then
        Inl (ValueError ''R has %i dimensions, but a three-dimensional array is expected'')
      else if shape R ! 0 < 2 then
        Inl (ValueError ''R has %i frame, but at least two frames are expected'')
      else if list_ex (\<lambda>f. \<not> isfinite f) (as_floats (data R)) then
        Inl (ValueError ''All values in R must be finite'')
      else Inr ())"

text \<open>
  Lines 106--112: the checks on \<^verbatim>\<open>extra_vectors\<close>. A value that is neither \<^verbatim>\<open>None\<close>
  nor an array has no \<^verbatim>\<open>shape\<close>.
\<close>

definition check_extra_vectors :: "pyval \<Rightarrow> error + unit" where
  "check_extra_vectors ev =
     (case ev of
        PyNone \<Rightarrow> Inr ()
      | PyArray a \<Rightarrow>
          (if length (shape a) \<noteq> 2 then
             Inl (ValueError ''extra_vectors has %i dimensions, but 2 dimensions are expected'')
           else if shape a ! 1 \<noteq> 4 then
             Inl (ValueError ''extra_vectors has %i columns, but 4 columns are expected'')
           else Inr ())
      | _ \<Rightarrow> Inl AttributeError)"

section \<open>The array store\<close>

text \<open>
  Arrays are objects: a variable holds a reference, and an assignment through a
  reference (\<^verbatim>\<open>R[mask] = ...\<close>) is seen through every other reference to the same
  object. The store is the list of the array objects that exist; a reference is an index
  into it; a new array is appended. A step of the pipeline takes the store and returns
  its result, or the exception it raised, with the store as it then is.
\<close>

type_synonym heap = "ndarray list"

type_synonym 'a stage = "heap \<Rightarrow> (error + 'a) \<times> heap"

definition bind :: "'a stage \<Rightarrow> ('a \<Rightarrow> 'b stage) \<Rightarrow> 'b stage" where
  "bind m f h = (case m h of (Inl e, h') \<Rightarrow> (Inl e, h') | (Inr a, h') \<Rightarrow> f a h')"

definition lift :: "error + 'a \<Rightarrow> 'a stage" where
  "lift r h = (r, h)"

definition alloc :: "ndarray \<Rightarrow> nat stage" where
  "alloc a h = (Inr (length h), h @ [a])"

definition buf_slice :: "buffer \<Rightarrow> nat \<Rightarrow> nat \<Rightarrow> buffer" where
  "buf_slice b off len = (case b of Float64 xs \<Rightarrow> Float64 (take len (drop off xs))
     | UInt8 ws \<Rightarrow> UInt8 (take len (drop off ws)))"

text \<open>\<^verbatim>\<open>R[n,:,:].copy()\<close> for a three-dimensional \<^verbatim>\<open>R\<close>: frame \<open>n\<close> in a new array.\<close>

definition frame_copy :: "nat \<Rightarrow> nat \<Rightarrow> nat stage" where
  "frame_copy R n h =
     (let a = h ! R; m = shape a ! 1; w = shape a ! 2
      in alloc \<lparr> shape = [m, w], data = buf_slice (data a) (n * (m * w)) (m * w) \<rparr> h)"

text \<open>
  Lines 131--132, \<^verbatim>\<open>(prvs - prvs.min())/(prvs.max() - prvs.min())*255\<close>: a new array of
  doubles. The division is numpy's: a zero divisor gives \<open>NaN\<close> or an infinity.
\<close>

definition scale_0_255 :: "nat \<Rightarrow> nat stage" where
  "scale_0_255 a h =
     (let xs = as_floats (data (h ! a))
      in case amin xs of
           Inl e \<Rightarrow> (Inl e, h)
         | Inr mn \<Rightarrow>
             (case amax xs of
                Inl e \<Rightarrow> (Inl e, h)
              | Inr mx \<Rightarrow>
                  alloc \<lparr> shape = shape (h ! a),
                          data = Float64 (map (\<lambda>x. fl_mul (fl_div (fl_sub x mn) (fl_sub mx mn))
                                                     (Finite 255)) xs) \<rparr> h))"

text \<open>
  Lines 135--136, \<^verbatim>\<open>astype(.., "uint8")\<close>: a new array of bytes. A finite double is
  truncated towards zero and reduced modulo 256; what a non-finite double becomes is left
  to the platform, and is the parameter \<open>cast\<close>.
\<close>

definition uint8_of_float :: "(float \<Rightarrow> 8 word) \<Rightarrow> float \<Rightarrow> 8 word" where
  "uint8_of_float cast f =
     (case f of Finite r \<Rightarrow> word_of_int (if r < 0 then \<lceil>r\<rceil> else \<lfloor>r\<rfloor>) | _ \<Rightarrow> cast f)"

definition astype_uint8 :: "(float \<Rightarrow> 8 word) \<Rightarrow> nat \<Rightarrow> nat stage" where
  "astype_uint8 cast a h =
     alloc \<lparr> shape = shape (h ! a),
             data = UInt8 (case data (h ! a) of UInt8 ws \<Rightarrow> ws
                           | Float64 xs \<Rightarrow> map (uint8_of_float cast) xs) \<rparr> h"

section \<open>Feature detection, tracking and image cleaning\<close>

text \<open>
  OpenCV is not part of the module: its three functions are parameters of the model, as
  is the platform's cast of a non-finite double to a byte. Each takes array values and
  returns a value or raises; none of them is given a reference into the store.
  \<^item> \<open>goodFeaturesToTrack img maxCorners qualityLevel minDistance blockSize\<close>: the corners,
    or \<^verbatim>\<open>None\<close>;
  \<^item> \<open>calcOpticalFlowPyrLK prvs next p0 winSize maxLevel\<close>: the tracked points, the status
    flags and the errors;
  \<^item> \<open>morphologyEx_open img n\<close>: the pixels of the opening of \<open>img\<close> by the elliptic
    structuring element of size \<open>(n, n)\<close>
    (\<^verbatim>\<open>getStructuringElement\<close> then \<^verbatim>\<open>morphologyEx(.., MORPH_OPEN, ..)\<close>).
\<close>

type_synonym point = "real \<times> real"

record env =
  goodFeaturesToTrack ::
    "ndarray \<Rightarrow> pyval \<Rightarrow> pyval \<Rightarrow> pyval \<Rightarrow> pyval \<Rightarrow> error + point list option"
  calcOpticalFlowPyrLK ::
    "ndarray \<Rightarrow> ndarray \<Rightarrow> point list \<Rightarrow> pyval \<Rightarrow> pyval
       \<Rightarrow> error + (point list \<times> nat list \<times> real list)"
  morphologyEx_open :: "ndarray \<Rightarrow> pyval \<Rightarrow> error + 8 word list"
  cast_nonfinite :: "float \<Rightarrow> 8 word"

text \<open>Indexing with a boolean mask, \<^verbatim>\<open>a[mask]\<close>: the elements where the mask is true.\<close>

definition mask_select :: "'a list \<Rightarrow> bool list \<Rightarrow> 'a list" where
  "mask_select xs keep = map fst (filter snd (zip xs keep))"

definition ShiTomasi_features_to_track ::
  "env \<Rightarrow> ndarray \<Rightarrow> pyval \<Rightarrow> pyval \<Rightarrow> pyval \<Rightarrow> pyval \<Rightarrow> error + point list" where
  "ShiTomasi_features_to_track ext R max_corners_ST quality_level_ST min_distance_ST block_size_ST =
     (if length (shape R) \<noteq> 2 then Inl (ValueError ''R must be a two-dimensional array'')
      else case data R of
             Float64 xs \<Rightarrow> Inl (ValueError ''R must be passed as 8-bit image'')
           | UInt8 ws \<Rightarrow>
               (case goodFeaturesToTrack ext R max_corners_ST quality_level_ST
                       min_distance_ST block_size_ST of
                  Inl e \<Rightarrow> Inl e
                | Inr None \<Rightarrow> Inl (ValueError ''Shi-Tomasi found no good feature to be tracked.'')
                | Inr (Some p0) \<Rightarrow> Inr p0))"

text \<open>
  Lines 269--288. The points whose status flag is 1 are kept; a mask that does not have
  the length of the array it indexes raises. \<open>nxt\<close> is the parameter \<^verbatim>\<open>next\<close> of the
  source.
\<close>

definition LucasKanade_features_tracking ::
  "env \<Rightarrow> ndarray \<Rightarrow> ndarray \<Rightarrow> point list \<Rightarrow> pyval \<Rightarrow> pyval
     \<Rightarrow> error + (real list \<times> real list \<times> real list \<times> real list)" where
  "LucasKanade_features_tracking ext prvs nxt p0 winsize_LK nr_levels_LK =
     (case calcOpticalFlowPyrLK ext prvs nxt p0 winsize_LK nr_levels_LK of
        Inl e \<Rightarrow> Inl e
      | Inr (p1, st, err) \<Rightarrow>
          (if \<not> (length p1 = length st \<and> length p0 = length st \<and> length err = length st)
           then Inl IndexError
           else let st' = map (\<lambda>s. s = 1) st;
                    p1' = mask_select p1 st';
                    p0' = mask_select p0 st';
                    x0 = map fst p0';
                    y0 = map snd p0';
                    u = map (\<lambda>(a, b). fst a - fst b) (zip p1' p0');
                    v = map (\<lambda>(a, b). snd a - snd b) (zip p1' p0')
                in Inr (x0, y0, u, v)))"

text \<open>
  \<^verbatim>\<open>np.nanmin\<close>: the least element that is not \<open>NaN\<close>; \<open>NaN\<close> when all are; an empty
  array raises.
\<close>

definition nanmin :: "float list \<Rightarrow> error + float" where
  "nanmin xs =
     (if xs = [] then Inl (ValueError ''zero-size array to reduction operation'')
      else case filter (\<lambda>x. x \<noteq> NaN) xs of [] \<Rightarrow> Inr NaN | y # ys \<Rightarrow> Inr (foldl fl_min2 y ys))"

text \<open>
  \<^verbatim>\<open>R[mask] = value\<close> on a buffer: the masked elements are overwritten, the others kept.
  The value is stored in the buffer's element type.
\<close>

definition masked_fill :: "(float \<Rightarrow> 8 word) \<Rightarrow> buffer \<Rightarrow> bool list \<Rightarrow> float \<Rightarrow> buffer" where
  "masked_fill cast b keep val =
     (case b of
        Float64 xs \<Rightarrow> Float64 (map (\<lambda>(x, m). if m then val else x) (zip xs keep))
      | UInt8 ws \<Rightarrow> UInt8 (map (\<lambda>(w, m). if m then uint8_of_float cast val else w) (zip ws keep)))"

text \<open>
  Lines 308--323. \<^verbatim>\<open>clean_image\<close> is given a reference and writes through it: the
  object at \<open>R\<close> in the store is replaced by the cleaned one, and the same reference is
  returned. The subtraction \<^verbatim>\<open>field_bin - field_bin_out\<close> is of bytes, and wraps.
\<close>

definition clean_image :: "env \<Rightarrow> nat \<Rightarrow> pyval \<Rightarrow> real \<Rightarrow> nat stage" where
  "clean_image ext R n thr h =
     (let a = h ! R;
          field_bin = map (\<lambda>x. if fl_less (Finite thr) x then 1 else 0 :: 8 word)
                        (as_floats (data a))
      in case morphologyEx_open ext \<lparr> shape = shape a, data = UInt8 field_bin \<rparr> n of
           Inl e \<Rightarrow> (Inl e, h)
         | Inr field_bin_out \<Rightarrow>
             (if length field_bin_out \<noteq> length field_bin
              then (Inl (ValueError ''operands could not be broadcast together''), h)
              else let diff = map (\<lambda>(p, q). p - q > 0) (zip field_bin field_bin_out)
                   in case nanmin (as_floats (data a)) of
                        Inl e \<Rightarrow> (Inl e, h)
                      | Inr mn \<Rightarrow>
                          (Inr R,
                           h[R := a\<lparr> data := masked_fill (cast_nonfinite ext) (data a) diff mn \<rparr>])))"

section \<open>The outlier filter\<close>

text \<open>
  \<^verbatim>\<open>np.percentile(a, q)\<close> with its default, linear interpolation between the two
  closest ranks of the sorted array, for a non-empty \<open>a\<close> and \<open>0 \<le> q \<le> 100\<close>.
\<close>

definition percentile :: "real list \<Rightarrow> real \<Rightarrow> real" where
  "percentile a q =
     (let s = sort a;
          idx = q / 100 * real (length s - 1);
          below = nat \<lfloor>idx\<rfloor>;
          above = min (below + 1) (length s - 1);
          weight_above = idx - real below
      in s ! below * (1 - weight_above) + s ! above * weight_above)"

text \<open>
  Lines 151--161 of \<^verbatim>\<open>dense_lucaskanade\<close>: the speeds, their quartiles, the two
  thresholds, the mask \<^verbatim>\<open>keep\<close> and the four arrays indexed by it. The percentile of an
  empty array raises (an \<^verbatim>\<open>IndexError\<close> or a \<^verbatim>\<open>ValueError\<close>, by numpy's release).
\<close>

definition speeds :: "real list \<Rightarrow> real list \<Rightarrow> real list" where
  "speeds u v = map (\<lambda>(a, b). sqrt (a\<^sup>2 + b\<^sup>2)) (zip u v)"

definition max_speed_thr :: "real \<Rightarrow> real \<Rightarrow> real list \<Rightarrow> real" where
  "max_speed_thr max_speed nr_IQR_outlier speed =
     (let q1 = percentile speed 25; q2 = percentile speed 50; q3 = percentile speed 75
      in min max_speed (q2 + nr_IQR_outlier * (q3 - q1)))"

definition min_speed_thr :: "real list \<Rightarrow> real" where
  "min_speed_thr speed =
     (let q1 = percentile speed 25; q2 = percentile speed 50; q3 = percentile speed 75
      in max 0 (q2 - 2 * (q3 - q1)))"

definition outlier_filter ::
  "real \<Rightarrow> real \<Rightarrow> real list \<Rightarrow> real list \<Rightarrow> real list \<Rightarrow> real list
     \<Rightarrow> error + (real list \<times> real list \<times> real list \<times> real list)" where
  "outlier_filter max_speed nr_IQR_outlier x0 y0 u v =
     (let speed = speeds u v
      in if speed = [] then Inl IndexError
         else let keep = map (\<lambda>s. s < max_speed_thr max_speed nr_IQR_outlier speed
                                    \<and> s > min_speed_thr speed) speed
              in Inr (mask_select x0 keep, mask_select y0 keep,
                      mask_select u keep, mask_select v keep))"

section \<open>Declustering\<close>

text \<open>
  \<^verbatim>\<open>np.median\<close> of a non-empty array: the middle element of the sorted array, or the
  mean of the two middle ones.
\<close>

definition median_of :: "real list \<Rightarrow> real" where
  "median_of a =
     (let s = sort a; n = length s
      in if even n then (s ! (n div 2 - 1) + s ! (n div 2)) / 2 else s ! (n div 2))"

text \<open>\<^verbatim>\<open>np.median\<close>: of an empty array it is \<open>NaN\<close>.\<close>

definition median :: "real list \<Rightarrow> float" where
  "median a = (if a = [] then NaN else Finite (median_of a))"

text \<open>
  The loop of lines 371--378 over the unique cells: \<open>idx\<close> marks the samples of the cell,
  and a cell with at least \<open>min_nr_samples\<close> of them appends the four medians. Every cell
  of \<open>unique_xy\<close> is the cell of some sample, so the medians are of non-empty arrays.
\<close>

fun decluster_cells ::
  "(int \<times> int) list \<Rightarrow> (int \<times> int) list \<Rightarrow> real list \<Rightarrow> real list \<Rightarrow> real list \<Rightarrow> real list
     \<Rightarrow> real \<Rightarrow> real list \<times> real list \<times> real list \<times> real list" where
  "decluster_cells [] xy x y u v min_nr_samples = ([], [], [], [])"
| "decluster_cells (c # cs) xy x y u v min_nr_samples =
     (let idx = map (\<lambda>p. fst p = fst c \<and> snd p = snd c) xy;
          npoints = length (filter id idx);
          (xN, yN, uN, vN) = decluster_cells cs xy x y u v min_nr_samples
      in if real npoints \<ge> min_nr_samples
         then (median_of (mask_select x idx) # xN, median_of (mask_select y idx) # yN,
               median_of (mask_select u idx) # uN, median_of (mask_select v idx) # vN)
         else (xN, yN, uN, vN))"

text \<open>
  Lines 350--386. \<^verbatim>\<open>squeeze()\<close> removes every axis of length one: with a single
  sample, \<^verbatim>\<open>xy\<close> has the shape \<open>(2,)\<close> and \<^verbatim>\<open>xy.shape[1]\<close> raises. Not modelled are:
  \<^item> arrays of different lengths (the four arrays are those of one sample set);
  \<^item> a cell size of zero: the module divides by it, gets cell coordinates that are
    infinite or \<open>NaN\<close>, and goes on to return medians for them;
  \<^item> the sign of zero: the cells are integers here, while \<^verbatim>\<open>np.unique\<close> compares the
    bytes of doubles and takes \<open>0.0\<close> and \<open>-0.0\<close> for two cells, each of which then
    collects the samples of both (line 372 compares numbers) and is emitted;
  \<^item> the order of the output: \<^verbatim>\<open>np.unique\<close> orders the cells by their bytes, the model
    keeps every cell once, in the order of the samples.
\<close>

definition declustering ::
  "real list \<Rightarrow> real list \<Rightarrow> real list \<Rightarrow> real list \<Rightarrow> real \<Rightarrow> real
     \<Rightarrow> error + (real list \<times> real list \<times> real list \<times> real list)" where
  "declustering x y u v decl_grid min_nr_samples =
     (if length y = length x \<and> length u = length x \<and> length v = length x \<and> decl_grid \<noteq> 0
      then let xT = map (\<lambda>a. \<lfloor>a / decl_grid\<rfloor>) x;
               yT = map (\<lambda>a. \<lfloor>a / decl_grid\<rfloor>) y;
               xy = zip xT yT
           in if length xy = 1 then Inl IndexError
              else let unique_xy = remdups xy
                   in Inr (decluster_cells unique_xy xy x y u v min_nr_samples)
      else Inl NotModelled)"

section \<open>Interpolation of the sparse vectors\<close>

text \<open>The argument \<^verbatim>\<open>k\<close>: the string \<^verbatim>\<open>"all"\<close> or an integer.\<close>

datatype neighbours = K_all | K_int int

text \<open>\<^verbatim>\<open>str.lower()\<close>, on the ASCII letters.\<close>

definition lower_char :: "char \<Rightarrow> char" where
  "lower_char c =
     (case map_of (zip ''ABCDEFGHIJKLMNOPQRSTUVWXYZ'' ''abcdefghijklmnopqrstuvwxyz'') c of
        None \<Rightarrow> c
      | Some l \<Rightarrow> l)"

definition lower :: "string \<Rightarrow> string" where
  "lower s = map lower_char s"

definition euclidean :: "point \<Rightarrow> point \<Rightarrow> real" where
  "euclidean p q = sqrt ((fst p - fst q)\<^sup>2 + (snd p - snd q)\<^sup>2)"

text \<open>
  Lines 446--449: the grid points \<open>(column, row)\<close>, row by row
  (\<^verbatim>\<open>meshgrid\<close>, \<^verbatim>\<open>ravel\<close>, \<^verbatim>\<open>column_stack\<close>).
\<close>

definition make_grid :: "nat \<Rightarrow> nat \<Rightarrow> point list" where
  "make_grid nrows ncols =
     concat (map (\<lambda>i. map (\<lambda>j. (real j, real i)) [0..<ncols]) [0..<nrows])"

text \<open>
  \<^verbatim>\<open>np.array_split(grid, nchunks, 0)\<close> for \<open>nchunks > 0\<close>: the first
  \<open>len mod nchunks\<close> sections have one element more than the others.
\<close>

fun split_sections :: "'a list \<Rightarrow> nat list \<Rightarrow> 'a list list" where
  "split_sections xs [] = []"
| "split_sections xs (n # ns) = take n xs # split_sections (drop n xs) ns"

definition array_split :: "'a list \<Rightarrow> nat \<Rightarrow> 'a list list" where
  "array_split xs nchunks =
     (let Neach_section = length xs div nchunks; extras = length xs mod nchunks
      in split_sections xs
           (replicate extras (Neach_section + 1) @ replicate (nchunks - extras) Neach_section))"

text \<open>\<^verbatim>\<open>U[i0:(i0+idelta)] = vals\<close>, for \<open>idelta = length vals\<close> and a slice inside \<open>U\<close>.\<close>

definition assign_slice :: "'a list \<Rightarrow> nat \<Rightarrow> 'a list \<Rightarrow> 'a list" where
  "assign_slice U i0 vals = take i0 U @ vals @ drop (i0 + length vals) U"

text \<open>
  Modelled from the spec: \<^verbatim>\<open>scipy.spatial.cKDTree(points).query(g, k)\<close>, which is not part of
  the repository. The \<open>k\<close> nearest points to \<open>g\<close> by Euclidean distance, nearest first, as
  pairs of the distance and the point's index; points at the same distance in the order of
  their indices. Fewer than \<open>k\<close> points give them all.
\<close>

definition tree_query :: "point list \<Rightarrow> nat \<Rightarrow> point \<Rightarrow> (real \<times> nat) list" where
  "tree_query points k g =
     take k (sort_key fst (map (\<lambda>i. (euclidean (points ! i) g, i)) [0..<length points]))"

text \<open>
  \<^verbatim>\<open>scipy.spatial.distance.cdist(points, subgrid).transpose()\<close> with the indices of line
  480: for a grid point, every sample with its distance, in the order of the samples.
\<close>

definition cdist_row :: "point list \<Rightarrow> point \<Rightarrow> (real \<times> nat) list" where
  "cdist_row points g = map (\<lambda>i. (euclidean (points ! i) g, i)) [0..<length points]"

text \<open>\<^verbatim>\<open>scipy.spatial.distance.pdist(points)\<close>: the distances of the pairs \<open>i < j\<close>.\<close>

fun pdist :: "point list \<Rightarrow> real list" where
  "pdist [] = []"
| "pdist (p # ps) = map (euclidean p) ps @ pdist ps"

text \<open>
  The two radial basis functions of lines 493 and 495 on the values of doubles:
  \<^verbatim>\<open>1.0/np.sqrt((d/epsilon)**2 + 1)\<close> and \<^verbatim>\<open>np.exp(-0.5*(d/epsilon)**2)\<close>, and
  \<^verbatim>\<open>np.sum\<close> along a row. All three are exact here, and the module's are not:
  \<^item> the exponential of a finite number is positive here; in doubles it underflows to
    zero (for \<open>d/epsilon\<close> of about 39 and more), and a grid point all of whose neighbours
    are that far away gets \<open>0/0 = NaN\<close>;
  \<^item> the sum of a row does not depend on the order of its additions here; numpy rounds
    after every addition, and adds a row one after the other or in pairs, depending on
    the memory layout of the array summed, which depends on the number of rows of the
    chunk when \<^verbatim>\<open>k = "all"\<close>. The section on double precision below follows
    that rounding.
\<close>

definition fl_sqrt :: "float \<Rightarrow> float" where
  "fl_sqrt a = (case a of Finite r \<Rightarrow> (if r < 0 then NaN else Finite (sqrt r))
     | PosInf \<Rightarrow> PosInf | NegInf \<Rightarrow> NaN | NaN \<Rightarrow> NaN)"

definition fl_exp :: "float \<Rightarrow> float" where
  "fl_exp a = (case a of Finite r \<Rightarrow> Finite (exp r)
     | PosInf \<Rightarrow> PosInf | NegInf \<Rightarrow> Finite 0 | NaN \<Rightarrow> NaN)"

definition fl_sum :: "float list \<Rightarrow> float" where
  "fl_sum xs = foldl fl_add (Finite 0) xs"

definition inverse_weight :: "float \<Rightarrow> real \<Rightarrow> float" where
  "inverse_weight epsilon d =
     (let r = fl_div (Finite d) epsilon
      in fl_div (Finite 1) (fl_sqrt (fl_add (fl_mul r r) (Finite 1))))"

definition gaussian_weight :: "float \<Rightarrow> real \<Rightarrow> float" where
  "gaussian_weight epsilon d =
     (let r = fl_div (Finite d) epsilon
      in fl_exp (fl_mul (Finite (- (1 / 2))) (fl_mul r r)))"

text \<open>
  Lines 499--500 for one grid point: \<open>row\<close> holds its neighbours (distance and index),
  \<open>w\<close> their weights.
  \<^verbatim>\<open>np.sum(w * u.flatten()[inds], axis=1) / np.sum(w, axis=1)\<close>.
\<close>

definition weighted_mean :: "float list \<Rightarrow> real list \<Rightarrow> (real \<times> nat) list \<Rightarrow> float" where
  "weighted_mean w u row =
     fl_div (fl_sum (map (\<lambda>(wi, (d, i)). fl_mul wi (Finite (u ! i))) (zip w row))) (fl_sum w)"

text \<open>
  The body of the loop over the subgrids, lines 467--502. The state is \<open>(U, V, i0,
  epsilon)\<close>; \<open>k\<close> is the value line 456 left in the variable. The tree exists only when
  \<open>k\<close> is not \<^verbatim>\<open>"all"\<close>. A query for one neighbour returns one-dimensional arrays, which
  have no axis 1 to sum over; a query for less than one neighbour raises.
\<close>

definition interpolate_subgrid ::
  "string \<Rightarrow> neighbours \<Rightarrow> point list \<Rightarrow> real list \<Rightarrow> real list \<Rightarrow> point list
     \<Rightarrow> float list \<times> float list \<times> nat \<times> float option
     \<Rightarrow> error + (float list \<times> float list \<times> nat \<times> float option)" where
  "interpolate_subgrid func k points u v subgrid st =
     (case st of (U, V, i0, epsilon) \<Rightarrow>
        let idelta = length subgrid
        in if lower func = ''nearest'' then
             (case k of
                K_all \<Rightarrow> Inl UnboundLocalError
              | K_int kk \<Rightarrow>
                  (let inds = map (\<lambda>g. map snd (tree_query points 1 g)) subgrid
                   in if list_ex (\<lambda>r. r = []) inds then Inl IndexError
                      else Inr (assign_slice U i0 (map (\<lambda>r. Finite (u ! hd r)) inds),
                                assign_slice V i0 (map (\<lambda>r. Finite (v ! hd r)) inds),
                                i0 + idelta, epsilon)))
           else
             (case (case k of
                      K_all \<Rightarrow> Inr (False, map (cdist_row points) subgrid)
                    | K_int kk \<Rightarrow>
                        (if kk < 1 then Inl (ValueError ''k must be at least 1'')
                         else Inr (kk = 1, map (tree_query points (nat kk)) subgrid))) of
                Inl e \<Rightarrow> Inl e
              | Inr (one_dimensional, rows) \<Rightarrow>
                  (let eps = (case epsilon of None \<Rightarrow> median (pdist points) | Some e \<Rightarrow> e)
                   in if lower func \<noteq> ''inverse'' \<and> lower func \<noteq> ''gaussian''
                      then Inl (ValueError ''unknown radial fucntion %s'')
                      else if one_dimensional then Inl AxisError
                      else let w = map (\<lambda>row. map (\<lambda>(d, i).
                                     if lower func = ''inverse'' then inverse_weight eps d
                                     else gaussian_weight eps d) row) rows
                           in Inr (assign_slice U i0
                                     (map (\<lambda>(wr, row). weighted_mean wr u row) (zip w rows)),
                                   assign_slice V i0
                                     (map (\<lambda>(wr, row). weighted_mean wr v row) (zip w rows)),
                                   i0 + idelta, Some eps))))"

fun interpolate_loop ::
  "string \<Rightarrow> neighbours \<Rightarrow> point list \<Rightarrow> real list \<Rightarrow> real list \<Rightarrow> point list list
     \<Rightarrow> float list \<times> float list \<times> nat \<times> float option
     \<Rightarrow> error + (float list \<times> float list \<times> nat \<times> float option)" where
  "interpolate_loop func k points u v [] st = Inr st"
| "interpolate_loop func k points u v (subgrid # subgrids) st =
     (case interpolate_subgrid func k points u v subgrid st of
        Inl e \<Rightarrow> Inl e
      | Inr st' \<Rightarrow> interpolate_loop func k points u v subgrids st')"

text \<open>
  Lines 436--507. The four arrays are those of one sample set, of one length; arrays of
  different lengths are not modelled. \<open>domain_size\<close> is a tuple of naturals, and \<open>func\<close>
  is the parameter \<^verbatim>\<open>function\<close> of the source. The result is the grid with \<open>U\<close> and
  \<open>V\<close>, row by row.
\<close>

definition interpolate_sparse_vectors ::
  "real list \<Rightarrow> real list \<Rightarrow> real list \<Rightarrow> real list \<Rightarrow> nat list \<Rightarrow> string \<Rightarrow> neighbours
     \<Rightarrow> float option \<Rightarrow> int \<Rightarrow> error + (point list \<times> float list \<times> float list)" where
  "interpolate_sparse_vectors x y u v domain_size func k epsilon nchunks =
     (if \<not> (length y = length x \<and> length u = length x \<and> length v = length x)
      then Inl NotModelled
      else if domain_size = [] then Inl IndexError
      else if length domain_size = 1 then Inl TypeError
      else let points = zip x y;
               grid = make_grid (domain_size ! 0) (domain_size ! 1);
               U = replicate (length grid) (Finite 0);
               V = replicate (length grid) (Finite 0);
               k' = (case k of K_all \<Rightarrow> K_all
                     | K_int kk \<Rightarrow> K_int (min kk (int (length points))))
           in if nchunks \<le> 0
              then Inl (ValueError ''number sections must be larger than 0.'')
              else let subgrids = filter (\<lambda>s. s \<noteq> []) (array_split grid (nat nchunks))
                   in case interpolate_loop func k' points u v subgrids (U, V, 0, epsilon) of
                        Inl e \<Rightarrow> Inl e
                      | Inr (U', V', i0, eps) \<Rightarrow> Inr (grid, U', V'))"

section \<open>Interpolation with all the samples, in double precision\<close>

text \<open>
  The module computes in doubles, which round after every operation. This section follows
  lines 477--500 once more, for \<^verbatim>\<open>k = "all"\<close>, the kernel \<^verbatim>\<open>inverse\<close> and a given
  bandwidth, with that rounding: to the nearest number of 53 significant bits, a tie to
  the one whose last bit is even. The numbers are finite and in the normal range: overflow,
  subnormal numbers, the sign of zero and a division by zero are not modelled.
\<close>

text \<open>The nearest integer, a tie to the even one.\<close>

definition round_half_even :: "real \<Rightarrow> int" where
  "round_half_even x =
     (let n = \<lfloor>x\<rfloor>; r = x - of_int n
      in if r < 1 / 2 then n else if 1 / 2 < r then n + 1 else if even n then n else n + 1)"

text \<open>
  The exponent \<open>e\<close> of a positive number \<open>x\<close>, with \<open>2 ^ e \<le> x < 2 ^ (e + 1)\<close>, found by
  halving or doubling \<open>x\<close>, for exponents up to 1100 in absolute value.
\<close>

fun halvings :: "nat \<Rightarrow> real \<Rightarrow> int" where
  "halvings 0 x = 0"
| "halvings (Suc n) x = (if x < 2 then 0 else 1 + halvings n (x / 2))"

fun doublings :: "nat \<Rightarrow> real \<Rightarrow> int" where
  "doublings 0 x = 0"
| "doublings (Suc n) x = (if 1 \<le> x then 0 else 1 + doublings n (2 * x))"

definition binade :: "real \<Rightarrow> int" where
  "binade x = (if 1 \<le> x then halvings 1100 x else - doublings 1100 x)"

text \<open>The distance of two neighbouring doubles with the exponent \<open>e\<close>.\<close>

definition ulp :: "int \<Rightarrow> real" where
  "ulp e = (if 52 \<le> e then 2 ^ nat (e - 52) else 1 / 2 ^ nat (52 - e))"

text \<open>The double nearest to a real number.\<close>

definition double :: "real \<Rightarrow> real" where
  "double x = (if x = 0 then 0
     else of_int (round_half_even (x / ulp (binade \<bar>x\<bar>))) * ulp (binade \<bar>x\<bar>))"

text \<open>
  The operations of doubles: the exact result, rounded. The square root of IEEE 754 is
  rounded correctly, like the four operations.
\<close>

definition dbl_add :: "real \<Rightarrow> real \<Rightarrow> real" where
  "dbl_add a b = double (a + b)"

definition dbl_sub :: "real \<Rightarrow> real \<Rightarrow> real" where
  "dbl_sub a b = double (a - b)"

definition dbl_mul :: "real \<Rightarrow> real \<Rightarrow> real" where
  "dbl_mul a b = double (a * b)"

definition dbl_div :: "real \<Rightarrow> real \<Rightarrow> real" where
  "dbl_div a b = double (a / b)"

definition dbl_sqrt :: "real \<Rightarrow> real" where
  "dbl_sqrt a = double (sqrt a)"

text \<open>
  \<^verbatim>\<open>scipy.spatial.distance.cdist(points, subgrid, 'euclidean')\<close> for one sample and one
  grid point: the squares of the differences are added, and the root is taken.
\<close>

definition cdist_double :: "point \<Rightarrow> point \<Rightarrow> real" where
  "cdist_double p g =
     (let dx = dbl_sub (fst p) (fst g); dy = dbl_sub (snd p) (snd g)
      in dbl_sqrt (dbl_add (dbl_mul dx dx) (dbl_mul dy dy)))"

text \<open>Line 493: \<^verbatim>\<open>1.0/np.sqrt((d/epsilon)**2 + 1)\<close>; numpy squares by a multiplication.\<close>

definition inverse_weight_double :: "real \<Rightarrow> real \<Rightarrow> real" where
  "inverse_weight_double epsilon d =
     (let r = dbl_div d epsilon
      in dbl_div 1 (dbl_sqrt (dbl_add (dbl_mul r r) 1)))"

text \<open>
  \<^verbatim>\<open>np.sum(a, axis=1)\<close> adds a row in one of two orders, and starts from 0. The numbers of
  a row that does not lie contiguously in memory are added one after the other. A row that
  does is added by numpy's pairwise summation: fewer than 8 numbers one after the other;
  up to 128 numbers in eight partial sums \<open>r0, \<dots>, r7\<close>, where \<open>rj\<close> adds the numbers at
  \<open>j, j + 8, j + 16, \<dots>\<close>, combined as
  \<open>((r0 + r1) + (r2 + r3)) + ((r4 + r5) + (r6 + r7))\<close>, and then the numbers left over
  one after the other; a longer row in two parts, the first of a length divisible by 8.
\<close>

definition sum_in_order :: "real list \<Rightarrow> real" where
  "sum_in_order a = foldl dbl_add 0 a"

function pairwise_sum :: "real list \<Rightarrow> real" where
  "pairwise_sum a =
     (let n = length a
      in if n < 8 then foldl dbl_add 0 a
         else if n \<le> 128 then
           (let r = (\<lambda>j. foldl dbl_add (a ! j) (map (\<lambda>i. a ! (8 * i + j)) [1..<n div 8]))
            in foldl dbl_add
                 (dbl_add (dbl_add (dbl_add (r 0) (r 1)) (dbl_add (r 2) (r 3)))
                          (dbl_add (dbl_add (r 4) (r 5)) (dbl_add (r 6) (r 7))))
                 (drop (n - n mod 8) a))
         else (let n2 = n div 2 - (n div 2) mod 8
               in dbl_add (pairwise_sum (take n2 a)) (pairwise_sum (drop n2 a))))"
  by pat_completeness auto
termination
proof (relation "measure length")
  show "wf (measure length)" by simp
next
  fix a :: "real list" and n n2
  assume "n = length a" "\<not> n < 8" "\<not> n \<le> 128" "n2 = n div 2 - n div 2 mod 8"
  then show "(take n2 a, a) \<in> measure length" by simp
next
  fix a :: "real list" and n n2
  assume a: "n = length a" "\<not> n < 8" "\<not> n \<le> 128" "n2 = n div 2 - n div 2 mod 8"
  have "n div 2 mod 8 < 8" by simp
  moreover have "64 \<le> n div 2" using a by simp
  ultimately have "0 < n2" using a by simp
  moreover have "0 < length a" using a(1) a(3) by arith
  ultimately have "length a - n2 < length a" by simp
  then show "(drop n2 a, a) \<in> measure length" by simp
qed

declare pairwise_sum.simps [simp del]

definition np_sum_row :: "bool \<Rightarrow> real list \<Rightarrow> real" where
  "np_sum_row contiguous a =
     (if contiguous then dbl_add 0 (pairwise_sum a) else sum_in_order a)"

text \<open>
  Line 499 for one grid point of a chunk of \<open>idelta\<close> grid points:
  \<^verbatim>\<open>np.sum(w * u.flatten()[inds], axis=1) / np.sum(w, axis=1)\<close>. The weights \<open>w\<close> have the
  memory layout of \<open>d\<close>, the transpose of the array \<^verbatim>\<open>cdist\<close> returns (line 479): the
  weights of one grid point lie \<open>idelta\<close> numbers apart, contiguously only in a chunk of
  a single grid point. The products have the layout of \<^verbatim>\<open>inds\<close>, row by row.
\<close>

definition weighted_mean_double :: "nat \<Rightarrow> real list \<Rightarrow> real list \<Rightarrow> real" where
  "weighted_mean_double idelta w u =
     dbl_div (np_sum_row True (map (\<lambda>(wi, ui). dbl_mul wi ui) (zip w u)))
             (np_sum_row (idelta = 1) w)"

text \<open>
  The body of the loop over the subgrids, lines 467--502, and the function, lines 436--507,
  for \<^verbatim>\<open>k = "all"\<close>, the kernel \<^verbatim>\<open>inverse\<close>, a given bandwidth, four arrays of one length,
  a \<open>domain_size\<close> of two entries and \<open>nchunks > 0\<close>. The result is \<open>U\<close> and \<open>V\<close>, row
  by row.
\<close>

definition interpolate_subgrid_double ::
  "point list \<Rightarrow> real list \<Rightarrow> real list \<Rightarrow> real \<Rightarrow> point list
     \<Rightarrow> real list \<times> real list \<times> nat \<Rightarrow> real list \<times> real list \<times> nat" where
  "interpolate_subgrid_double points u v epsilon subgrid st =
     (case st of (U, V, i0) \<Rightarrow>
        let idelta = length subgrid;
            d = map (\<lambda>g. map (\<lambda>p. cdist_double p g) points) subgrid;
            w = map (map (inverse_weight_double epsilon)) d
        in (assign_slice U i0 (map (\<lambda>wr. weighted_mean_double idelta wr u) w),
            assign_slice V i0 (map (\<lambda>wr. weighted_mean_double idelta wr v) w),
            i0 + idelta))"

definition interpolate_sparse_vectors_double ::
  "real list \<Rightarrow> real list \<Rightarrow> real list \<Rightarrow> real list \<Rightarrow> nat list \<Rightarrow> real \<Rightarrow> nat
     \<Rightarrow> real list \<times> real list" where
  "interpolate_sparse_vectors_double x y u v domain_size epsilon nchunks =
     (let points = zip x y;
          grid = make_grid (domain_size ! 0) (domain_size ! 1);
          U = replicate (length grid) 0;
          V = replicate (length grid) 0;
          subgrids = filter (\<lambda>s. s \<noteq> []) (array_split grid nchunks)
      in case foldl (\<lambda>st subgrid. interpolate_subgrid_double points u v epsilon subgrid st)
                (U, V, 0) subgrids of
           (U', V', i0) \<Rightarrow> (U', V'))"

section \<open>The pipeline\<close>

text \<open>
  The body of the loop over the pairs of frames, lines 126--167: both frames are copied,
  rescaled, converted to bytes and cleaned, each step but the cleaning making a new
  array; then the features of the first are tracked into the second and the outliers
  removed.
\<close>

definition pair_step ::
  "env \<Rightarrow> config \<Rightarrow> nat \<Rightarrow> nat \<Rightarrow> (real list \<times> real list \<times> real list \<times> real list) stage" where
  "pair_step ext cfg R n =
     bind (frame_copy R n) (\<lambda>prvs.
     bind (frame_copy R (n + 1)) (\<lambda>nxt.
     bind (scale_0_255 prvs) (\<lambda>prvs.
     bind (scale_0_255 nxt) (\<lambda>nxt.
     bind (astype_uint8 (cast_nonfinite ext) prvs) (\<lambda>prvs.
     bind (astype_uint8 (cast_nonfinite ext) nxt) (\<lambda>nxt.
     bind (clean_image ext prvs (kw_size_opening cfg) 0) (\<lambda>prvs.
     bind (clean_image ext nxt (kw_size_opening cfg) 0) (\<lambda>nxt.
     (\<lambda>h. lift
        (ebind (ShiTomasi_features_to_track ext (h ! prvs) (kw_max_corners_ST cfg)
                  (kw_quality_level_ST cfg) (kw_min_distance_ST cfg) (kw_block_size_ST cfg))
           (\<lambda>p0.
         ebind (LucasKanade_features_tracking ext (h ! prvs) (h ! nxt) p0
                  (kw_winsize_LK cfg) (kw_nr_levels_LK cfg))
           (\<lambda>(x0, y0, u, v).
         ebind (py_number (kw_max_speed cfg)) (\<lambda>max_speed.
         ebind (py_number (kw_nr_IQR_outlier cfg)) (\<lambda>nr_IQR_outlier.
           outlier_filter max_speed nr_IQR_outlier x0 y0 u v))))) h)))))))))"

text \<open>
  The loop of line 124 with the stacking of lines 164--173: the samples of the pairs, in
  the order of the pairs.
\<close>

fun track_pairs ::
  "env \<Rightarrow> config \<Rightarrow> nat \<Rightarrow> nat list
     \<Rightarrow> (real list \<times> real list \<times> real list \<times> real list) stage" where
  "track_pairs ext cfg R [] h = (Inr ([], [], [], []), h)"
| "track_pairs ext cfg R (n # ns) h =
     (case pair_step ext cfg R n h of
        (Inl e, h') \<Rightarrow> (Inl e, h')
      | (Inr (x0, y0, u, v), h') \<Rightarrow>
          (case track_pairs ext cfg R ns h' of
             (Inl e, h'') \<Rightarrow> (Inl e, h'')
           | (Inr (x0s, y0s, us, vs), h'') \<Rightarrow> (Inr (x0 @ x0s, y0 @ y0s, u @ us, v @ vs), h'')))"

text \<open>
  Lines 179--183: the columns of \<^verbatim>\<open>extra_vectors\<close> appended to the declustered samples.
  The interpolation is modelled on finite samples only.
\<close>

definition column :: "ndarray \<Rightarrow> nat \<Rightarrow> float list" where
  "column a j = map (\<lambda>i. as_floats (data a) ! (i * (shape a ! 1) + j)) [0..<shape a ! 0]"

definition fl_real :: "float \<Rightarrow> real" where
  "fl_real f = (case f of Finite r \<Rightarrow> r | _ \<Rightarrow> 0)"

definition finite_values :: "float list \<Rightarrow> error + real list" where
  "finite_values fs = (if list_all isfinite fs then Inr (map fl_real fs) else Inl NotModelled)"

definition append_extra_vectors ::
  "pyval \<Rightarrow> real list \<times> real list \<times> real list \<times> real list
     \<Rightarrow> error + (real list \<times> real list \<times> real list \<times> real list)" where
  "append_extra_vectors extra_vectors s =
     (case s of (x, y, u, v) \<Rightarrow>
        (case extra_vectors of
           PyNone \<Rightarrow> Inr (x, y, u, v)
         | PyArray a \<Rightarrow>
             ebind (finite_values (column a 0)) (\<lambda>ex.
             ebind (finite_values (column a 1)) (\<lambda>ey.
             ebind (finite_values (column a 2)) (\<lambda>eu.
             ebind (finite_values (column a 3)) (\<lambda>ev.
               Inr (x @ ex, y @ ey, u @ eu, v @ ev)))))
         | _ \<Rightarrow> Inl NotModelled))"

text \<open>
  The keyword \<^verbatim>\<open>k\<close>. Line 455 tests identity (\<^verbatim>\<open>k is not "all"\<close>) and line 478
  equality; \<open>K_all\<close> stands for the string that is both, the literal \<^verbatim>\<open>"all"\<close>. A
  string that is equal to it without being the same object (for which line 456 raises)
  is not told apart here.
\<close>

definition py_neighbours :: "pyval \<Rightarrow> error + neighbours" where
  "py_neighbours v = (case v of PyInt i \<Rightarrow> Inr (K_int i)
     | PyStr s \<Rightarrow> (if s = ''all'' then Inr K_all else Inl NotModelled)
     | _ \<Rightarrow> Inl NotModelled)"

definition py_epsilon :: "pyval \<Rightarrow> error + float option" where
  "py_epsilon v = (case v of PyNone \<Rightarrow> Inr None
     | _ \<Rightarrow> ebind (py_number v) (\<lambda>r. Inr (Some (Finite r))))"

text \<open>Lines 176--187: declustering, the extra vectors, and the interpolation.\<close>

definition sparse_to_dense ::
  "config \<Rightarrow> nat list \<Rightarrow> real list \<times> real list \<times> real list \<times> real list
     \<Rightarrow> error + (float list \<times> float list)" where
  "sparse_to_dense cfg domain_size s =
     (case s of (x0, y0, u, v) \<Rightarrow>
        ebind (py_number (kw_decl_grid cfg)) (\<lambda>decl_grid.
        ebind (py_number (kw_min_nr_samples cfg)) (\<lambda>min_nr_samples.
        ebind (declustering x0 y0 u v decl_grid min_nr_samples) (\<lambda>d.
        ebind (append_extra_vectors (kw_extra_vectors cfg) d) (\<lambda>(x, y, u, v).
        ebind (py_string (kw_function cfg)) (\<lambda>func.
        ebind (py_neighbours (kw_k cfg)) (\<lambda>k.
        ebind (py_epsilon (kw_epsilon cfg)) (\<lambda>epsilon.
        ebind (py_int (kw_nchunks cfg)) (\<lambda>nchunks.
        ebind (interpolate_sparse_vectors x y u v domain_size func k epsilon nchunks)
          (\<lambda>(grid, U, V). Inr (U, V)))))))))))"

text \<open>Lines 82--112: everything \<^verbatim>\<open>dense_lucaskanade\<close> checks before its loop.\<close>

definition validate :: "ndarray \<Rightarrow> kwargs \<Rightarrow> error + config" where
  "validate R kw =
     ebind (check_R R) (\<lambda>_.
     ebind (check_extra_vectors (kw_extra_vectors (defaults kw))) (\<lambda>_.
       Inr (defaults kw)))"

text \<open>
  \<^verbatim>\<open>dense_lucaskanade(R, **kwargs)\<close>, with \<open>R\<close> a reference into the store. The result is
  the pair of \<open>U\<close> and \<open>V\<close>, each row by row. Printing and timing are left out.
\<close>

definition dense_lucaskanade ::
  "env \<Rightarrow> kwargs \<Rightarrow> nat \<Rightarrow> (float list \<times> float list) stage" where
  "dense_lucaskanade ext kw R h =
     (case validate (h ! R) kw of
        Inl e \<Rightarrow> (Inl e, h)
      | Inr cfg \<Rightarrow>
          (let nr_fields = shape (h ! R) ! 0;
               domain_size = [shape (h ! R) ! 1, shape (h ! R) ! 2]
           in bind (track_pairs ext cfg R [0..<nr_fields - 1])
                (\<lambda>s. lift (sparse_to_dense cfg domain_size s)) h))"

section \<open>Specification predicates and example inputs\<close>

text \<open>
  The conditions under which the input of \<^verbatim>\<open>dense_lucaskanade\<close> is invalid, as the
  specification words them: \<open>R\<close> is not three-dimensional, or has fewer than two frames,
  or holds a non-finite value, or \<^verbatim>\<open>extra_vectors\<close> is given and is not a two-dimensional
  array with four columns.
\<close>

definition invalid_input :: "ndarray \<Rightarrow> kwargs \<Rightarrow> bool" where
  "invalid_input R kw =
     (length (shape R) \<noteq> 3
      \<or> shape R ! 0 < 2
      \<or> (\<exists>f \<in> set (as_floats (data R)). \<not> isfinite f)
      \<or> (case kwargs_get kw ''extra_vectors'' PyNone of
            PyNone \<Rightarrow> False
          | PyArray a \<Rightarrow> \<not> (length (shape a) = 2 \<and> shape a ! 1 = 4)
          | _ \<Rightarrow> True))"

definition one_frame :: ndarray where
  "one_frame = \<lparr> shape = [1, 1, 1], data = Float64 [Finite 0] \<rparr>"

definition two_flat_frames :: ndarray where
  "two_flat_frames = \<lparr> shape = [2, 1, 1], data = Float64 [Finite 0, Finite 0] \<rparr>"

text \<open>
  The declustering grid as the specification words it: the cell of sample \<open>i\<close> is
  \<open>(floor (x / cell_size), floor (y / cell_size))\<close>, and the members of a cell are the
  samples that fall into it.
\<close>

definition cell_of :: "real \<Rightarrow> real list \<Rightarrow> real list \<Rightarrow> nat \<Rightarrow> int \<times> int" where
  "cell_of cell_size x y i = (\<lfloor>x ! i / cell_size\<rfloor>, \<lfloor>y ! i / cell_size\<rfloor>)"

definition members :: "real \<Rightarrow> real list \<Rightarrow> real list \<Rightarrow> int \<times> int \<Rightarrow> nat list" where
  "members cell_size x y c = filter (\<lambda>i. cell_of cell_size x y i = c) [0..<length x]"

text \<open>
  A step of the pipeline keeps the first \<open>n\<close> objects of the store when, started in a
  store of at least \<open>n\<close> objects, it ends (with a result or an exception) in a store
  whose first \<open>n\<close> objects are the same; \<open>Q\<close> holds of its result.
\<close>

definition keeps :: "nat \<Rightarrow> 'a stage \<Rightarrow> ('a \<Rightarrow> bool) \<Rightarrow> bool" where
  "keeps n m Q =
     (\<forall>h. n \<le> length h \<longrightarrow>
        (case m h of (r, h') \<Rightarrow>
           n \<le> length h' \<and> take n h' = take n h
           \<and> (case r of Inl e \<Rightarrow> True | Inr a \<Rightarrow> Q a)))"

text \<open>
  An input of two frames of one row and two columns, and OpenCV functions for it: no
  corner is found, and the opening removes every pixel.
\<close>

definition two_ramp_frames :: ndarray where
  "two_ramp_frames =
     \<lparr> shape = [2, 1, 2], data = Float64 [Finite 0, Finite 1, Finite 0, Finite 1] \<rparr>"

definition example_env :: env where
  "example_env =
     \<lparr> goodFeaturesToTrack = (\<lambda>img mc ql md bs. Inr None),
       calcOpticalFlowPyrLK = (\<lambda>prvs nxt p0 w l. Inr ([], [], [])),
       morphologyEx_open = (\<lambda>img n. Inr (replicate (size_of (data img)) 0)),
       cast_nonfinite = (\<lambda>f. 0) \<rparr>"

text \<open>
  The invariant of the interpolation loop: the next slice starts inside \<open>U\<close> and \<open>V\<close>.
\<close>

definition fits :: "float list \<times> float list \<times> nat \<times> float option \<Rightarrow> bool" where
  "fits st = (case st of (U, V, i0, epsilon) \<Rightarrow> i0 \<le> length U \<and> i0 \<le> length V)"

text \<open>
  The interpolation as the specification words it. Sample \<open>j\<close> is the nearest to the
  grid point \<open>g\<close> when no sample is closer, and no sample of a lower index is as close.
  The weight of a sample at distance \<open>d\<close> under the bandwidth \<open>e\<close> is
  \<open>1 / sqrt ((d/e)\<^sup>2 + 1)\<close> for the kernel \<^verbatim>\<open>inverse\<close> and \<open>exp (- (d/e)\<^sup>2 / 2)\<close> for
  \<^verbatim>\<open>gaussian\<close>; the neighbours of a grid point are all samples, or its \<open>min k n\<close> nearest;
  the bandwidth is the given one, or the median distance between the samples; and the
  velocity of a grid point is the weighted average over its neighbours.
\<close>

definition is_nearest :: "point list \<Rightarrow> point \<Rightarrow> nat \<Rightarrow> bool" where
  "is_nearest points g j =
     (j < length points
      \<and> (\<forall>i<length points. euclidean (points ! j) g \<le> euclidean (points ! i) g)
      \<and> (\<forall>i<j. euclidean (points ! j) g < euclidean (points ! i) g))"

definition rbf_weight :: "string \<Rightarrow> real \<Rightarrow> real \<Rightarrow> real" where
  "rbf_weight func e d =
     (if lower func = ''inverse'' then 1 / sqrt ((d / e)\<^sup>2 + 1)
      else exp (- (1 / 2) * (d / e)\<^sup>2))"

definition neighbours_of :: "neighbours \<Rightarrow> point list \<Rightarrow> point \<Rightarrow> (real \<times> nat) list" where
  "neighbours_of k points g =
     (case k of K_all \<Rightarrow> cdist_row points g
      | K_int kk \<Rightarrow> tree_query points (nat (min kk (int (length points)))) g)"

definition bandwidth :: "float option \<Rightarrow> point list \<Rightarrow> float" where
  "bandwidth epsilon points =
     (case epsilon of None \<Rightarrow> median (pdist points) | Some e \<Rightarrow> e)"

definition weighted_average ::
  "string \<Rightarrow> real \<Rightarrow> real list \<Rightarrow> (real \<times> nat) list \<Rightarrow> real" where
  "weighted_average func e a row =
     (\<Sum>(d, i) \<leftarrow> row. rbf_weight func e d * a ! i) / (\<Sum>(d, i) \<leftarrow> row. rbf_weight func e d)"

section \<open>Properties: configuration and validation\<close>

lemma validate_Inl_iff: "(\<exists>e. validate A kw = Inl e) \<longleftrightarrow> invalid_input A kw"
  by (auto simp: validate_def ebind_def check_R_def check_extra_vectors_def invalid_input_def
      defaults_def list_ex_iff split: pyval.splits if_splits)

lemma validate_Inr: "validate A kw = Inr cfg \<Longrightarrow> cfg = defaults kw"
  by (auto simp: validate_def ebind_def split: sum.splits)

lemma winsize_LK_read_from_other_key:
  "kw_winsize_LK (defaults kw)
     = (case map_of kw ''winsize_LK5'' of None \<Rightarrow> PyTuple [PyInt 50, PyInt 50] | Some v \<Rightarrow> v)"
  by (simp add: defaults_def kwargs_get_def)

text \<open>
  Claim C3. The window size handed to the Lucas-Kanade tracker should be the value of
  the keyword \<^verbatim>\<open>winsize_LK\<close> when the caller gives one. The module reads the key
  \<^verbatim>\<open>winsize_LK5\<close> instead: a caller's \<^verbatim>\<open>winsize_LK=(10, 10)\<close> is ignored and the
  tracker gets the default \<open>(50, 50)\<close>.
\<close>

theorem winsize_LK_keyword_is_ignored:
  "kw_winsize_LK (defaults [(''winsize_LK'', PyTuple [PyInt 10, PyInt 10])])
     = PyTuple [PyInt 50, PyInt 50]"
  by (simp add: defaults_def kwargs_get_def)

text \<open>
  Claim C7. If the input is invalid, \<^verbatim>\<open>dense_lucaskanade\<close> raises an error that does not
  depend on the feature detector, the tracker or the morphological operator, and leaves
  the store as it was: it fails before any of that work. If the input is not invalid,
  the validation passes and yields the configuration.
\<close>

theorem dense_lucaskanade_validates_first:
  "(invalid_input (h ! R) kw \<longrightarrow> (\<exists>e. \<forall>ext. dense_lucaskanade ext kw R h = (Inl e, h)))
   \<and> (\<not> invalid_input (h ! R) kw \<longrightarrow> validate (h ! R) kw = Inr (defaults kw))"
proof (intro conjI impI)
  assume "invalid_input (h ! R) kw"
  then obtain e where "validate (h ! R) kw = Inl e"
    using validate_Inl_iff by blast
  then have "\<forall>ext. dense_lucaskanade ext kw R h = (Inl e, h)"
    by (simp add: dense_lucaskanade_def)
  then show "\<exists>e. \<forall>ext. dense_lucaskanade ext kw R h = (Inl e, h)" ..
next
  assume "\<not> invalid_input (h ! R) kw"
  then have "\<not> (\<exists>e. validate (h ! R) kw = Inl e)"
    using validate_Inl_iff by blast
  then obtain cfg where "validate (h ! R) kw = Inr cfg"
    by (cases "validate (h ! R) kw") auto
  then show "validate (h ! R) kw = Inr (defaults kw)"
    using validate_Inr by blast
qed

theorem dense_lucaskanade_validates_first_witness:
  "invalid_input one_frame []
   \<and> (\<exists>e. \<forall>ext. dense_lucaskanade ext [] 0 [one_frame] = (Inl e, [one_frame]))
   \<and> \<not> invalid_input two_flat_frames []
   \<and> validate two_flat_frames [] = Inr (defaults [])"
proof -
  have bad: "invalid_input one_frame []"
    by (simp add: invalid_input_def one_frame_def)
  have good: "\<not> invalid_input two_flat_frames []"
    by (simp add: invalid_input_def two_flat_frames_def as_floats_def kwargs_get_def
        isfinite_def)
  show ?thesis
    using dense_lucaskanade_validates_first [of "[one_frame]" 0 "[]"]
      dense_lucaskanade_validates_first [of "[two_flat_frames]" 0 "[]"] bad good
    by simp
qed

section \<open>Properties: the outlier filter\<close>

lemma mask_select_nth:
  "length xs = length ks \<Longrightarrow>
     mask_select xs ks = map ((!) xs) (filter ((!) ks) [0..<length ks])"
proof (induction xs ks rule: list_induct2)
  case Nil
  then show ?case by (simp add: mask_select_def)
next
  case (Cons x xs k ks)
  have upt: "[0..<Suc (length ks)] = 0 # map Suc [0..<length ks]"
    by (simp add: upt_conv_Cons map_Suc_upt del: upt_Suc)
  have "filter ((!) (b # ks)) (map Suc [0..<length ks])
          = map Suc (filter ((!) ks) [0..<length ks])" for b
    by (simp add: filter_map comp_def)
  with Cons show ?case
    by (simp add: mask_select_def upt comp_def del: upt_Suc)
qed

lemma mask_select_map:
  assumes "length xs = length ys"
  shows "mask_select xs (map P ys) = map ((!) xs) (filter (\<lambda>i. P (ys ! i)) [0..<length ys])"
proof -
  have "filter ((!) (map P ys)) [0..<length ys] = filter (\<lambda>i. P (ys ! i)) [0..<length ys]"
    by (rule filter_cong) auto
  with mask_select_nth [of xs "map P ys"] assms show ?thesis by simp
qed

text \<open>
  Claim C5. For a non-empty set of displacement vectors (four arrays of one length), the
  filter computes the speed \<open>sqrt (u\<^sup>2 + v\<^sup>2)\<close> of each point, the quartiles \<open>q1\<close>, \<open>q2\<close>,
  \<open>q3\<close> of the speeds, the thresholds \<open>min max_speed (q2 + k (q3 - q1))\<close> and
  \<open>max 0 (q2 - 2 (q3 - q1))\<close>, and returns exactly the points whose speed lies strictly
  between the two, in their order.
\<close>

theorem outlier_filter_retains_between_thresholds:
  assumes "u \<noteq> []" and "length v = length u" and "length x0 = length u"
    and "length y0 = length u"
  shows "let speed = map (\<lambda>i. sqrt ((u ! i)\<^sup>2 + (v ! i)\<^sup>2)) [0..<length u];
             q1 = percentile speed 25;
             q2 = percentile speed 50;
             q3 = percentile speed 75;
             max_thr = min max_speed (q2 + k * (q3 - q1));
             min_thr = max 0 (q2 - 2 * (q3 - q1));
             kept = filter (\<lambda>i. min_thr < speed ! i \<and> speed ! i < max_thr) [0..<length u]
         in outlier_filter max_speed k x0 y0 u v
              = Inr (map ((!) x0) kept, map ((!) y0) kept, map ((!) u) kept, map ((!) v) kept)"
proof -
  have sp: "speeds u v = map (\<lambda>i. sqrt ((u ! i)\<^sup>2 + (v ! i)\<^sup>2)) [0..<length u]"
    using assms(2) by (intro nth_equalityI) (simp_all add: speeds_def)
  have ne: "speeds u v \<noteq> []"
    using assms(1,2) by (cases u; cases v) (simp_all add: speeds_def)
  have len: "length (speeds u v) = length u"
    using assms(2) by (simp add: speeds_def)
  show ?thesis
    unfolding Let_def sp [symmetric]
    using ne len assms
    by (simp add: outlier_filter_def Let_def mask_select_map max_speed_thr_def
        min_speed_thr_def conj_commute)
qed

text \<open>
  Four points with the speeds 1, 5, 1 and 10: the quartiles are 1, 3 and 25/4, the
  thresholds 0 and 10, and the point of speed 10 is dropped by the strict inequality.
\<close>

theorem outlier_filter_retains_between_thresholds_witness:
  "[0, 3, 0, 6 :: real] \<noteq> []
   \<and> length [1, 4, 1, 8 :: real] = length [0, 3, 0, 6 :: real]
   \<and> outlier_filter 10 3 [1, 2, 3, 4] [5, 6, 7, 8] [0, 3, 0, 6] [1, 4, 1, 8]
       = Inr ([1, 2, 3], [5, 6, 7], [0, 3, 0], [1, 4, 1])"
proof -
  have up: "[0..<length [0, 3, 0, 6::real]] = [0, 1, 2, 3]"
    by (simp add: upt_rec)
  have s: "map (\<lambda>i. sqrt (([0, 3, 0, 6::real] ! i)\<^sup>2 + ([1, 4, 1, 8::real] ! i)\<^sup>2))
             [0, 1, 2, 3] = [1, 5, 1, 10]"
    by (simp add: real_sqrt_unique)
  have p: "percentile [1, 5, 1, 10] 25 = 1" "percentile [1, 5, 1, 10] 50 = 3"
    "percentile [1, 5, 1, 10] 75 = 25 / 4"
    by (simp_all add: percentile_def)
  show ?thesis
    using outlier_filter_retains_between_thresholds
      [of "[0, 3, 0, 6]" "[1, 4, 1, 8]" "[1, 2, 3, 4]" "[5, 6, 7, 8]" 10 3]
    unfolding Let_def up s p
    by simp
qed

section \<open>Properties: declustering\<close>

lemma filter_id_map: "length (filter id (map P xs)) = length (filter P xs)"
  by (induction xs) auto

lemma decluster_cells_eq:
  "decluster_cells cs xy x y u v mn =
     (let keep = (\<lambda>c. mn \<le> real (length (filter (\<lambda>p. p = c) xy)));
          sel = (\<lambda>a c. median_of (mask_select a (map (\<lambda>p. p = c) xy)))
      in (map (sel x) (filter keep cs), map (sel y) (filter keep cs),
          map (sel u) (filter keep cs), map (sel v) (filter keep cs)))"
proof (induction cs)
  case Nil
  show ?case by simp
next
  case (Cons c cs)
  have eq: "(\<lambda>p. fst p = fst c \<and> snd p = snd c) = (\<lambda>p. p = c)"
    by (auto simp: prod_eq_iff)
  show ?case
    by (simp add: Cons Let_def eq filter_id_map)
qed

lemma zip_cells:
  assumes "length y = length x"
  shows "zip (map (\<lambda>a. \<lfloor>a / g\<rfloor>) x) (map (\<lambda>a. \<lfloor>a / g\<rfloor>) y)
           = map (cell_of g x y) [0..<length x]"
  using assms by (intro nth_equalityI) (simp_all add: cell_of_def)

lemma members_count:
  "length (filter ((\<lambda>p. p = c) \<circ> cell_of g x y) [0..<length x]) = length (members g x y c)"
  by (simp add: members_def comp_def)

lemma members_select:
  assumes "length a = length x"
  shows "mask_select a (map ((\<lambda>p. p = c) \<circ> cell_of g x y) [0..<length x])
           = map ((!) a) (members g x y c)"
proof -
  have "filter (\<lambda>i. map (cell_of g x y) [0..<length x] ! i = c) [0..<length x]
          = filter (\<lambda>i. cell_of g x y i = c) [0..<length x]"
    by (rule filter_cong) auto
  with mask_select_map [of a "map (cell_of g x y) [0..<length x]" "\<lambda>p. p = c"] assms
  show ?thesis by (simp add: members_def)
qed

text \<open>
  Claim C4. Declustering should give, for every sample set, one median sample per cell
  that holds at least the minimum count. On a set of a single sample the module raises
  instead: \<^verbatim>\<open>squeeze()\<close> turns the one row of \<^verbatim>\<open>xy\<close> into a one-dimensional array, and
  \<^verbatim>\<open>xy.shape[1]\<close> is out of range.
\<close>

theorem declustering_single_sample_raises:
  "declustering [5] [5] [1] [1] 20 1 = Inl IndexError"
  by (simp add: declustering_def)

text \<open>
  On every other sample set the model agrees with the claim, for a cell size that is not
  zero and up to the sign of zero: the output samples are the medians of the cells that
  hold at least \<open>min_nr_samples\<close> samples, one sample per such cell, in some order.
\<close>

theorem declustering_cell_medians:
  assumes "length y = length x" and "length u = length x" and "length v = length x"
    and "decl_grid \<noteq> 0" and "length x \<noteq> 1"
  shows "\<exists>cs. distinct cs
           \<and> set cs = {c. c \<in> cell_of decl_grid x y ` {..<length x}
                          \<and> min_nr_samples \<le> real (length (members decl_grid x y c))}
           \<and> declustering x y u v decl_grid min_nr_samples
               = Inr (map (\<lambda>c. median_of (map ((!) x) (members decl_grid x y c))) cs,
                      map (\<lambda>c. median_of (map ((!) y) (members decl_grid x y c))) cs,
                      map (\<lambda>c. median_of (map ((!) u) (members decl_grid x y c))) cs,
                      map (\<lambda>c. median_of (map ((!) v) (members decl_grid x y c))) cs)"
proof -
  let ?xy = "map (cell_of decl_grid x y) [0..<length x]"
  let ?keep = "\<lambda>c. min_nr_samples \<le> real (length (members decl_grid x y c))"
  let ?cs = "filter ?keep (remdups ?xy)"
  have d: "distinct ?cs" by simp
  have s: "set ?cs = {c. c \<in> cell_of decl_grid x y ` {..<length x} \<and> ?keep c}"
    by (auto simp: atLeast0LessThan)
  have r: "declustering x y u v decl_grid min_nr_samples
               = Inr (map (\<lambda>c. median_of (map ((!) x) (members decl_grid x y c))) ?cs,
                      map (\<lambda>c. median_of (map ((!) y) (members decl_grid x y c))) ?cs,
                      map (\<lambda>c. median_of (map ((!) u) (members decl_grid x y c))) ?cs,
                      map (\<lambda>c. median_of (map ((!) v) (members decl_grid x y c))) ?cs)"
    using assms
    by (simp add: declustering_def Let_def zip_cells decluster_cells_eq members_count
        members_select)
  from d s r show ?thesis by blast
qed

text \<open>
  Three samples, two of them in the cell \<open>(0, 0)\<close> and one alone in the cell \<open>(1, 0)\<close>,
  with a minimum count of two: the output is the one median sample of the first cell.
\<close>

lemma declustering_example:
  "declustering [2, 4, 30] [3, 5, 7] [1, 3, 9] [2, 6, 9] 20 2 = Inr ([3], [4], [2], [4])"
  by (simp add: declustering_def mask_select_def median_of_def)

section \<open>Properties: the rescaling of a constant frame\<close>

lemma foldl_min_replicate: "foldl fl_min2 (Finite c) (replicate k (Finite c)) = Finite c"
  by (induction k) (simp_all add: fl_min2_def fl_less_def)

lemma foldl_max_replicate: "foldl fl_max2 (Finite c) (replicate k (Finite c)) = Finite c"
  by (induction k) (simp_all add: fl_max2_def fl_less_def)

lemma amin_replicate: "0 < k \<Longrightarrow> amin (replicate k (Finite c)) = Inr (Finite c)"
  by (cases k) (simp_all add: amin_def foldl_min_replicate)

lemma amax_replicate: "0 < k \<Longrightarrow> amax (replicate k (Finite c)) = Inr (Finite c)"
  by (cases k) (simp_all add: amax_def foldl_max_replicate)

lemma zero_by_zero:
  "fl_mul (fl_div (fl_sub (Finite c) (Finite c)) (fl_sub (Finite c) (Finite c))) (Finite 255)
     = NaN"
  by (simp add: fl_mul_def fl_div_def fl_sub_def fl_add_def fl_neg_def)

text \<open>
  Claim C9. An input that passes the validation can hold a frame whose values are all
  equal. For every such frame the rescaling of lines 131--132 divides by
  \<open>max - min = 0\<close>: the rescaled frame is \<open>NaN\<close> throughout. The frame is given by its
  slice of the buffer of \<open>R\<close>, \<open>k > 0\<close> equal finite values \<open>c\<close>.
\<close>

theorem constant_frame_rescaling_divides_by_zero:
  assumes "\<not> invalid_input (h ! R) kw"
    and "buf_slice (data (h ! R)) (n * (shape (h ! R) ! 1 * shape (h ! R) ! 2))
           (shape (h ! R) ! 1 * shape (h ! R) ! 2) = Float64 (replicate k (Finite c))"
    and "0 < k"
  shows "validate (h ! R) kw = Inr (defaults kw)
       \<and> (\<exists>prvs h' mn mx scaled h''.
            frame_copy R n h = (Inr prvs, h')
          \<and> amin (as_floats (data (h' ! prvs))) = Inr mn
          \<and> amax (as_floats (data (h' ! prvs))) = Inr mx
          \<and> fl_sub mx mn = Finite 0
          \<and> scale_0_255 prvs h' = (Inr scaled, h'')
          \<and> data (h'' ! scaled) = Float64 (replicate k NaN))"
proof -
  have v: "validate (h ! R) kw = Inr (defaults kw)"
    using assms(1) validate_Inl_iff validate_Inr
    by (cases "validate (h ! R) kw") blast+
  let ?fr = "\<lparr> shape = [shape (h ! R) ! 1, shape (h ! R) ! 2],
               data = Float64 (replicate k (Finite c)) \<rparr>"
  let ?sc = "\<lparr> shape = shape ?fr, data = Float64 (replicate k NaN) \<rparr>"
  have fc: "frame_copy R n h = (Inr (length h), h @ [?fr])"
    using assms(2) by (simp add: frame_copy_def alloc_def Let_def)
  have fl: "as_floats (data ((h @ [?fr]) ! length h)) = replicate k (Finite c)"
    by (simp add: as_floats_def)
  have sc: "scale_0_255 (length h) (h @ [?fr]) = (Inr (Suc (length h)), h @ [?fr] @ [?sc])"
    using assms(3)
    by (simp add: scale_0_255_def alloc_def Let_def as_floats_def amin_replicate
        amax_replicate zero_by_zero map_replicate_const)
  have d: "data ((h @ [?fr] @ [?sc]) ! Suc (length h)) = Float64 (replicate k NaN)"
    by (simp add: nth_append)
  have z: "fl_sub (Finite c) (Finite c) = Finite 0"
    by (simp add: fl_sub_def fl_add_def fl_neg_def)
  show ?thesis
    using v fc fl sc d z assms(3) amin_replicate amax_replicate
    by (intro conjI exI [of _ "length h"] exI [of _ "h @ [?fr]"] exI [of _ "Finite c"]
        exI [of _ "Suc (length h)"] exI [of _ "h @ [?fr] @ [?sc]"]) simp_all
qed

text \<open>
  Two frames of one pixel each, both zero: the input is valid, and the first frame is
  rescaled to \<open>NaN\<close>.
\<close>

theorem constant_frame_rescaling_divides_by_zero_witness:
  "\<not> invalid_input ([two_flat_frames] ! 0) []
   \<and> validate two_flat_frames [] = Inr (defaults [])
   \<and> (\<exists>prvs h' mn mx scaled h''.
            frame_copy 0 0 [two_flat_frames] = (Inr prvs, h')
          \<and> amin (as_floats (data (h' ! prvs))) = Inr mn
          \<and> amax (as_floats (data (h' ! prvs))) = Inr mx
          \<and> fl_sub mx mn = Finite 0
          \<and> scale_0_255 prvs h' = (Inr scaled, h'')
          \<and> data (h'' ! scaled) = Float64 [NaN])"
proof -
  have good: "\<not> invalid_input ([two_flat_frames] ! 0) []"
    by (simp add: invalid_input_def two_flat_frames_def as_floats_def kwargs_get_def
        isfinite_def)
  have sl: "buf_slice (data ([two_flat_frames] ! 0))
              (0 * (shape ([two_flat_frames] ! 0) ! 1 * shape ([two_flat_frames] ! 0) ! 2))
              (shape ([two_flat_frames] ! 0) ! 1 * shape ([two_flat_frames] ! 0) ! 2)
            = Float64 (replicate 1 (Finite 0))"
    by (simp add: two_flat_frames_def buf_slice_def)
  show ?thesis
    using constant_frame_rescaling_divides_by_zero [OF good sl] good by simp
qed

section \<open>Properties: the input array is not modified\<close>

lemma keepsI:
  assumes "\<And>h r h'. n \<le> length h \<Longrightarrow> m h = (r, h') \<Longrightarrow>
             n \<le> length h' \<and> take n h' = take n h \<and> (\<forall>a. r = Inr a \<longrightarrow> Q a)"
  shows "keeps n m Q"
  unfolding keeps_def using assms by (auto split: prod.splits sum.splits)

lemma keepsD:
  assumes "keeps n m Q" and "n \<le> length h" and "m h = (r, h')"
  shows "n \<le> length h'" and "take n h' = take n h" and "r = Inr a \<Longrightarrow> Q a"
  using assms unfolding keeps_def by (auto split: prod.splits sum.splits)

lemma keeps_alloc: "keeps n (alloc a) (\<lambda>r. n \<le> r)"
  by (rule keepsI) (auto simp: alloc_def)

lemma keeps_frame_copy: "keeps n (frame_copy R k) (\<lambda>r. n \<le> r)"
  by (rule keepsI) (auto simp: frame_copy_def alloc_def Let_def)

lemma keeps_scale: "keeps n (scale_0_255 a) (\<lambda>r. n \<le> r)"
  by (rule keepsI) (auto simp: scale_0_255_def alloc_def Let_def split: sum.splits)

lemma keeps_astype: "keeps n (astype_uint8 cast a) (\<lambda>r. n \<le> r)"
  by (rule keepsI) (auto simp: astype_uint8_def alloc_def)

lemma keeps_clean_image:
  assumes "n \<le> a"
  shows "keeps n (clean_image ext a sz thr) (\<lambda>r. n \<le> r)"
  using assms
  by (intro keepsI) (auto simp: clean_image_def Let_def split: sum.splits if_splits)

lemma keeps_bind:
  assumes "keeps n m Q" and "\<And>a. Q a \<Longrightarrow> keeps n (f a) Q'"
  shows "keeps n (bind m f) Q'"
proof (rule keepsI)
  fix h r h'
  assume n: "n \<le> length h" and b: "bind m f h = (r, h')"
  obtain r1 h1 where m: "m h = (r1, h1)" by (cases "m h")
  note k = keepsD [OF assms(1) n m]
  show "n \<le> length h' \<and> take n h' = take n h \<and> (\<forall>a. r = Inr a \<longrightarrow> Q' a)"
  proof (cases r1)
    case (Inl e)
    with b m k show ?thesis by (auto simp: bind_def)
  next
    case (Inr a)
    with b m have f: "f a h1 = (r, h')" by (simp add: bind_def)
    from k(3) Inr have "Q a" by simp
    from keepsD [OF assms(2) [OF this] k(1) f] k(2) show ?thesis by simp
  qed
qed

lemma keeps_lift: "keeps n (\<lambda>h. lift (g h) h) (\<lambda>_. True)"
  by (rule keepsI) (auto simp: lift_def)

lemma keeps_pair_step: "keeps n (pair_step ext cfg R k) (\<lambda>_. True)"
  unfolding pair_step_def
  by (intro keeps_bind [OF keeps_frame_copy] keeps_bind [OF keeps_scale]
      keeps_bind [OF keeps_astype] keeps_bind [OF keeps_clean_image] keeps_lift)

lemma keeps_track_pairs: "keeps n (track_pairs ext cfg R ns) (\<lambda>_. True)"
proof (induction ns)
  case Nil
  show ?case by (rule keepsI) auto
next
  case (Cons k ns)
  show ?case
  proof (rule keepsI)
    fix h r h'
    assume n: "n \<le> length h" and t: "track_pairs ext cfg R (k # ns) h = (r, h')"
    obtain r1 h1 where p: "pair_step ext cfg R k h = (r1, h1)"
      by (cases "pair_step ext cfg R k h")
    note k1 = keepsD(1,2) [OF keeps_pair_step n p]
    obtain r2 h2 where q: "track_pairs ext cfg R ns h1 = (r2, h2)"
      by (cases "track_pairs ext cfg R ns h1")
    note k2 = keepsD(1,2) [OF Cons k1(1) q]
    from t p q k1 k2
    show "n \<le> length h' \<and> take n h' = take n h \<and> (\<forall>a. r = Inr a \<longrightarrow> True)"
      by (auto split: sum.splits prod.splits)
  qed
qed

lemma keeps_dense_lucaskanade: "keeps n (dense_lucaskanade ext kw R) (\<lambda>_. True)"
proof (rule keepsI)
  fix h r h'
  assume n: "n \<le> length h" and d: "dense_lucaskanade ext kw R h = (r, h')"
  show "n \<le> length h' \<and> take n h' = take n h \<and> (\<forall>a. r = Inr a \<longrightarrow> True)"
  proof (cases "validate (h ! R) kw")
    case (Inl e)
    with d n show ?thesis by (simp add: dense_lucaskanade_def)
  next
    case (Inr cfg)
    let ?m = "bind (track_pairs ext cfg R [0..<shape (h ! R) ! 0 - 1])
                (\<lambda>s. lift (sparse_to_dense cfg [shape (h ! R) ! 1, shape (h ! R) ! 2] s))"
    have "keeps n ?m (\<lambda>_. True)"
      by (intro keeps_bind [OF keeps_track_pairs]) (rule keepsI, auto simp: lift_def)
    moreover from d Inr have "?m h = (r, h')" by (simp add: dense_lucaskanade_def Let_def)
    ultimately show ?thesis using n keepsD(1,2) by blast
  qed
qed

lemma dense_lucaskanade_two_ramp_frames:
  "dense_lucaskanade example_env [] 0 [two_ramp_frames] =
     (Inl (ValueError ''Shi-Tomasi found no good feature to be tracked.''),
      [two_ramp_frames,
       \<lparr> shape = [1, 2], data = Float64 [Finite 0, Finite 1] \<rparr>,
       \<lparr> shape = [1, 2], data = Float64 [Finite 0, Finite 1] \<rparr>,
       \<lparr> shape = [1, 2], data = Float64 [Finite 0, Finite 255] \<rparr>,
       \<lparr> shape = [1, 2], data = Float64 [Finite 0, Finite 255] \<rparr>,
       \<lparr> shape = [1, 2], data = UInt8 [0, 0] \<rparr>,
       \<lparr> shape = [1, 2], data = UInt8 [0, 0] \<rparr>])"
  by (simp add: dense_lucaskanade_def validate_def ebind_def check_R_def two_ramp_frames_def
      as_floats_def isfinite_def defaults_def kwargs_get_def check_extra_vectors_def bind_def
      pair_step_def frame_copy_def alloc_def buf_slice_def Let_def scale_0_255_def amin_def
      amax_def fl_min2_def fl_max2_def fl_less_def fl_sub_def fl_add_def fl_neg_def
      fl_div_def fl_mul_def astype_uint8_def uint8_of_float_def clean_image_def
      example_env_def size_of_def nanmin_def masked_fill_def lift_def
      ShiTomasi_features_to_track_def nth_append upt_rec)

text \<open>
  Claim C10. \<^verbatim>\<open>dense_lucaskanade\<close> never modifies its input array: whether the call
  returns or raises, and whatever the OpenCV functions return, the object that \<open>R\<close>
  refers to is in the final store what it was in the initial one. Every write of
  \<^verbatim>\<open>clean_image\<close> goes through a reference to an array made during the call.
\<close>

theorem dense_lucaskanade_keeps_input:
  assumes "R < length h"
  shows "snd (dense_lucaskanade ext kw R h) ! R = h ! R"
proof -
  obtain r h' where d: "dense_lucaskanade ext kw R h = (r, h')"
    by (cases "dense_lucaskanade ext kw R h")
  from keepsD(2) [OF keeps_dense_lucaskanade _ d, of "length h"]
  have "take (length h) h' = h" by simp
  then have "h' ! R = h ! R"
    using assms by (metis nth_take)
  with d show ?thesis by simp
qed

text \<open>
  On the two ramp frames the call raises after the cleaning: the sixth object of the
  final store is the cleaned copy of the first frame, whose pixel of value 255 was
  overwritten, while \<open>R\<close> is unchanged.
\<close>

theorem dense_lucaskanade_keeps_input_witness:
  "0 < length [two_ramp_frames]
   \<and> snd (dense_lucaskanade example_env [] 0 [two_ramp_frames]) ! 0 = two_ramp_frames
   \<and> snd (dense_lucaskanade example_env [] 0 [two_ramp_frames]) ! 5
       = \<lparr> shape = [1, 2], data = UInt8 [0, 0] \<rparr>"
  using dense_lucaskanade_keeps_input [of 0 "[two_ramp_frames]" example_env "[]"]
  by (simp add: dense_lucaskanade_two_ramp_frames)

section \<open>Properties: interpolation in chunks, in exact arithmetic\<close>

lemma concat_split_sections: "concat (split_sections xs ns) = take (sum_list ns) xs"
proof (induction ns arbitrary: xs)
  case Nil
  show ?case by simp
next
  case (Cons n ns)
  show ?case by (simp add: Cons take_add)
qed

lemma concat_array_split:
  assumes "0 < n"
  shows "concat (array_split xs n) = xs"
proof -
  let ?q = "length xs div n" and ?a = "length xs mod n"
  have "?a \<le> n" using assms by (simp add: less_imp_le)
  then have n: "?a + (n - ?a) = n" by simp
  have "?a * (?q + 1) + (n - ?a) * ?q = (?a + (n - ?a)) * ?q + ?a"
    by (simp only: add_mult_distrib add_mult_distrib2)
  also have "\<dots> = n * ?q + ?a" by (simp only: n)
  also have "\<dots> = length xs" by simp
  finally have "sum_list (replicate ?a (?q + 1) @ replicate (n - ?a) ?q) = length xs"
    by (simp add: sum_list_replicate)
  then show ?thesis
    by (simp add: array_split_def Let_def concat_split_sections)
qed

lemma assign_slice_twice:
  assumes "i0 \<le> length U"
  shows "assign_slice (assign_slice U i0 a) (i0 + length a) b = assign_slice U i0 (a @ b)"
  using assms by (simp add: assign_slice_def min_absorb2 ac_simps)

lemma length_assign_slice:
  assumes "i0 \<le> length U"
  shows "length (assign_slice U i0 a) = max (length U) (i0 + length a)"
  using assms by (simp add: assign_slice_def min_absorb2)

lemma map2_same:
  "map (\<lambda>(a, b). F a b) (zip (map f xs) (map g xs)) = map (\<lambda>x. F (f x) (g x)) xs"
  by (induction xs) auto

lemma assign_slice_map_twice:
  assumes "i0 \<le> length U"
  shows "assign_slice (assign_slice U i0 (map f s1)) (i0 + length s1) b
           = assign_slice U i0 (map f s1 @ b)"
  using assign_slice_twice [OF assms, of "map f s1" b] by simp

lemma subgrid_fits:
  assumes "interpolate_subgrid func k points u v s st = Inr st'" and "fits st"
  shows "fits st'"
proof -
  obtain U V i0 eps where st: "st = (U, V, i0, eps)" by (cases st)
  from assms show ?thesis
    unfolding st
    by (auto simp: interpolate_subgrid_def fits_def Let_def length_assign_slice map2_same
      split: neighbours.splits if_splits sum.splits)
qed

lemma subgrid_append:
  assumes "fits st"
  shows "(case interpolate_subgrid func k points u v s1 st of
            Inl e \<Rightarrow> Inl e
          | Inr st' \<Rightarrow> interpolate_subgrid func k points u v s2 st')
         = interpolate_subgrid func k points u v (s1 @ s2) st"
proof -
  obtain U V i0 eps where st: "st = (U, V, i0, eps)" by (cases st)
  from assms have f: "i0 \<le> length U" "i0 \<le> length V" by (simp_all add: st fits_def)
  show ?thesis
    unfolding st
    by (simp add: interpolate_subgrid_def Let_def map2_same assign_slice_map_twice [OF f(1)]
        assign_slice_map_twice [OF f(2)] list_ex_iff
      split: neighbours.splits)
qed


lemma loop_concat:
  assumes "fits st"
  shows "interpolate_loop func k points u v (filter (\<lambda>s. s \<noteq> []) sgs) st
           = (if concat sgs = [] then Inr st
              else interpolate_subgrid func k points u v (concat sgs) st)"
  using assms
proof (induction sgs arbitrary: st)
  case Nil
  show ?case by simp
next
  case (Cons s sgs)
  let ?body = "interpolate_subgrid func k points u v"
  show ?case
  proof (cases "s = []")
    case True
    with Cons show ?thesis by simp
  next
    case False
    then have ne: "concat (s # sgs) \<noteq> []" by simp
    have app: "?body (concat (s # sgs)) st
                 = (case ?body s st of Inl e \<Rightarrow> Inl e | Inr st' \<Rightarrow> ?body (concat sgs) st')"
      using subgrid_append [OF Cons.prems, where ?s1.0 = s and ?s2.0 = "concat sgs"] by simp
    have loop: "interpolate_loop func k points u v (filter (\<lambda>s. s \<noteq> []) (s # sgs)) st
                 = (case ?body s st of Inl e \<Rightarrow> Inl e
                    | Inr st' \<Rightarrow> interpolate_loop func k points u v (filter (\<lambda>s. s \<noteq> []) sgs) st')"
      using False by simp
    have rhs: "(if concat (s # sgs) = [] then Inr st else ?body (concat (s # sgs)) st)
                 = ?body (concat (s # sgs)) st"
      using ne by (simp only: if_False)
    show ?thesis
    proof (cases "?body s st")
      case (Inl e)
      have "interpolate_loop func k points u v (filter (\<lambda>s. s \<noteq> []) (s # sgs)) st = Inl e"
        unfolding loop using Inl by simp
      moreover have "?body (concat (s # sgs)) st = Inl e"
        unfolding app using Inl by simp
      ultimately show ?thesis unfolding rhs by (simp only:)
    next
      case (Inr st')
      from subgrid_fits [OF Inr Cons.prems] have "fits st'" .
      note ih = Cons.IH [OF this]
      have l: "interpolate_loop func k points u v (filter (\<lambda>s. s \<noteq> []) (s # sgs)) st
                 = (if concat sgs = [] then Inr st' else ?body (concat sgs) st')"
        unfolding loop ih [symmetric] using Inr by simp
      show ?thesis
      proof (cases "concat sgs = []")
        case True
        have "concat (s # sgs) = s"
          by (simp only: concat.simps True append_Nil2)
        then have "?body (concat (s # sgs)) st = Inr st'"
          using Inr by (simp only:)
        moreover have "interpolate_loop func k points u v (filter (\<lambda>s. s \<noteq> []) (s # sgs)) st
                         = Inr st'"
          unfolding l using True by (simp del: concat_eq_Nil_conv)
        ultimately show ?thesis unfolding rhs by (simp only:)
      next
        case False
        have "?body (concat (s # sgs)) st = ?body (concat sgs) st'"
          unfolding app using Inr by simp
        moreover have "interpolate_loop func k points u v (filter (\<lambda>s. s \<noteq> []) (s # sgs)) st
                         = ?body (concat sgs) st'"
          unfolding l using False by (simp del: concat_eq_Nil_conv)
        ultimately show ?thesis unfolding rhs by (simp only:)
      qed
    qed
  qed
qed

lemma loop_array_split:
  assumes "0 < n"
  shows "interpolate_loop func k points u v (filter (\<lambda>s. s \<noteq> []) (array_split grid n))
           (replicate m a, replicate m b, 0, eps)
         = (if grid = [] then Inr (replicate m a, replicate m b, 0, eps)
            else interpolate_subgrid func k points u v grid (replicate m a, replicate m b, 0, eps))"
proof -
  have "fits (replicate m a, replicate m b, 0, eps)" by (simp add: fits_def)
  from loop_concat [OF this] show ?thesis
    by (simp only: concat_array_split [OF assms])
qed

lemma single_pass:
  assumes "0 < nchunks"
  shows "interpolate_sparse_vectors x y u v domain_size func k epsilon nchunks
           = interpolate_sparse_vectors x y u v domain_size func k epsilon 1"
proof -
  have n: "0 < nat nchunks" "\<not> nchunks \<le> 0" using assms by simp_all
  have one: "0 < nat 1" "\<not> (1::int) \<le> 0" by simp_all
  show ?thesis
    unfolding interpolate_sparse_vectors_def Let_def
    by (simp only: loop_array_split [OF n(1)] loop_array_split [OF one(1)] n(2) one(2) if_False)
qed

text \<open>
  In the exact arithmetic of \<open>interpolate_sparse_vectors\<close> any two positive chunk counts
  give the same result: the chunk count reaches the field through nothing but the order in
  which doubles are rounded, which the next section follows.
\<close>

lemma chunks_invisible_in_exact_arithmetic:
  assumes "0 < n1" and "0 < n2"
  shows "interpolate_sparse_vectors x y u v domain_size func k epsilon n1
           = interpolate_sparse_vectors x y u v domain_size func k epsilon n2"
  using single_pass [OF assms(1)] single_pass [OF assms(2)] by simp

text \<open>
  Two samples on a grid of one row and three columns, nearest-neighbour kernel, where no
  sum is taken: one chunk and eight chunks give the same field.
\<close>

lemma nearest_example_one_chunk: 
  "interpolate_sparse_vectors [0, 3] [0, 0] [1, 5] [2, 6] [1, 3] ''nearest'' (K_int 20) None 1
     = Inr ([(0, 0), (1, 0), (2, 0)],
            [Finite 1, Finite 1, Finite 5], [Finite 2, Finite 2, Finite 6])"
  by (simp add: interpolate_sparse_vectors_def make_grid_def array_split_def
      interpolate_subgrid_def lower_def lower_char_def tree_query_def euclidean_def
      assign_slice_def upt_rec)

lemma chunks_invisible_in_exact_arithmetic_example:
  "(0::int) < 1 \<and> (0::int) < 8
   \<and> interpolate_sparse_vectors [0, 3] [0, 0] [1, 5] [2, 6] [1, 3] ''nearest'' (K_int 20) None 8
       = Inr ([(0, 0), (1, 0), (2, 0)],
              [Finite 1, Finite 1, Finite 5], [Finite 2, Finite 2, Finite 6])"
  using chunks_invisible_in_exact_arithmetic
      [of 1 8 "[0, 3]" "[0, 0]" "[1, 5]" "[2, 6]" "[1, 3]" "''nearest''" "K_int 20" None]
    nearest_example_one_chunk
  by simp

section \<open>Properties: interpolation in chunks, in double precision\<close>

text \<open>
  The search for the exponent finds it, and the rounding finds the nearest integer; a
  number between two neighbouring doubles is rounded to the nearer one, and so is its
  square root.
\<close>

lemma halvings_eq:
  assumes "2 ^ k \<le> x" and "x < 2 ^ Suc k" and "k \<le> n"
  shows "halvings n x = int k"
  using assms
proof (induction n arbitrary: x k)
  case 0
  then show ?case by simp
next
  case (Suc n)
  show ?case
  proof (cases k)
    case 0
    with Suc.prems show ?thesis by simp
  next
    case (Suc j)
    with Suc.prems have "2 ^ j \<le> x / 2" "x / 2 < 2 ^ Suc j" "j \<le> n" by simp_all
    from Suc.IH [OF this] have "halvings n (x / 2) = int j" .
    moreover have "\<not> x < 2"
    proof -
      have "(2::real) \<le> 2 ^ k" unfolding Suc by simp
      with Suc.prems(1) show ?thesis by simp
    qed
    ultimately show ?thesis using Suc by simp
  qed
qed

lemma doublings_eq:
  assumes "1 \<le> 2 ^ k * x" and "2 ^ k * x < 2" and "0 < x" and "k \<le> n"
  shows "doublings n x = int k"
  using assms
proof (induction n arbitrary: x k)
  case 0
  then show ?case by simp
next
  case (Suc n)
  show ?case
  proof (cases k)
    case 0
    with Suc.prems show ?thesis by simp
  next
    case (Suc j)
    with Suc.prems have "1 \<le> 2 ^ j * (2 * x)" "2 ^ j * (2 * x) < 2" "0 < 2 * x" "j \<le> n"
      by (simp_all add: mult.assoc mult.left_commute)
    from Suc.IH [OF this] have "doublings n (2 * x) = int j" .
    moreover have "\<not> 1 \<le> x"
    proof
      assume "1 \<le> x"
      moreover have "(2::real) \<le> 2 ^ k" unfolding Suc by simp
      ultimately have "2 * 1 \<le> 2 ^ k * x" by (intro mult_mono) simp_all
      with Suc.prems(2) show False by simp
    qed
    ultimately show ?thesis using Suc by simp
  qed
qed

lemma round_half_even_eq:
  assumes "of_int m - 1 / 2 < x" and "x < of_int m + 1 / 2"
  shows "round_half_even x = m"
proof -
  have "\<lfloor>x\<rfloor> = m \<or> \<lfloor>x\<rfloor> = m - 1" using assms by linarith
  then show ?thesis
  proof
    assume "\<lfloor>x\<rfloor> = m"
    moreover from this have "x - of_int m < 1 / 2" using assms by linarith
    ultimately show ?thesis by (simp add: round_half_even_def Let_def)
  next
    assume f: "\<lfloor>x\<rfloor> = m - 1"
    then have "1 / 2 < x - of_int (m - 1)" using assms by simp
    with f show ?thesis by (simp add: round_half_even_def Let_def)
  qed
qed

lemma double_eqI:
  assumes "2 ^ k \<le> \<bar>x\<bar>" and "\<bar>x\<bar> < 2 * 2 ^ k" and "k \<le> 52"
    and "of_int m - 1 / 2 < x * 2 ^ (52 - k)" and "x * 2 ^ (52 - k) < of_int m + 1 / 2"
  shows "double x = of_int m / 2 ^ (52 - k)"
proof -
  have one: "1 \<le> \<bar>x\<bar>"
  proof -
    have "(1::real) \<le> 2 ^ k" by simp
    with assms(1) show ?thesis by linarith
  qed
  have "halvings 1100 \<bar>x\<bar> = int k"
    using assms(1,2,3) by (intro halvings_eq) simp_all
  with one have b: "binade \<bar>x\<bar> = int k" by (simp add: binade_def)
  have u: "ulp (int k) = 1 / 2 ^ (52 - k)"
  proof (cases "k = 52")
    case True
    then show ?thesis by (simp add: ulp_def)
  next
    case False
    with assms(3) have "k < 52" by simp
    then have "nat (52 - int k) = 52 - k" by simp
    with \<open>k < 52\<close> show ?thesis by (simp add: ulp_def)
  qed
  have "round_half_even (x * 2 ^ (52 - k)) = m"
    using assms(4,5) by (rule round_half_even_eq)
  moreover have "x \<noteq> 0" using one by auto
  ultimately show ?thesis by (simp add: double_def b u)
qed

lemma dbl_sqrt_eqI:
  assumes "(2 ^ k)\<^sup>2 \<le> x" and "x < (2 * 2 ^ k)\<^sup>2" and "k \<le> 52" and "0 < m"
    and "((of_int m - 1 / 2) / 2 ^ (52 - k))\<^sup>2 < x"
    and "x < ((of_int m + 1 / 2) / 2 ^ (52 - k))\<^sup>2"
  shows "dbl_sqrt x = of_int m / 2 ^ (52 - k)"
proof -
  have x: "0 \<le> x"
  proof -
    have "(0::real) \<le> (2 ^ k)\<^sup>2" by simp
    with assms(1) show ?thesis by linarith
  qed
  have s: "0 \<le> sqrt x" using x by simp
  have m: "(0::real) \<le> of_int m - 1 / 2"
  proof -
    from assms(4) have "1 \<le> m" by simp
    then have "(1::real) \<le> of_int m" by simp
    then show ?thesis by simp
  qed
  have a1: "2 ^ k \<le> \<bar>sqrt x\<bar>"
    using assms(1) s by (simp add: real_le_rsqrt)
  have a2: "\<bar>sqrt x\<bar> < 2 * 2 ^ k"
    using assms(2) s by (simp add: real_less_lsqrt)
  have a3: "(of_int m - 1 / 2) / 2 ^ (52 - k) < sqrt x"
    using assms(5) m by (intro real_less_rsqrt) simp
  have a4: "sqrt x < (of_int m + 1 / 2) / 2 ^ (52 - k)"
    using assms(6) m by (intro real_less_lsqrt) simp_all
  have b3: "of_int m - 1 / 2 < sqrt x * 2 ^ (52 - k)"
    using a3 by (simp add: field_simps)
  have b4: "sqrt x * 2 ^ (52 - k) < of_int m + 1 / 2"
    using a4 by (simp add: field_simps)
  show ?thesis
    unfolding dbl_sqrt_def using a1 a2 assms(3) b3 b4 by (rule double_eqI)
qed

text \<open>The rounding and the sum of eight numbers, evaluated on numerals.\<close>

lemma halvings_numeral:
  "halvings (numeral n) x = (if x < 2 then 0 else 1 + halvings (pred_numeral n) (x / 2))"
  by (simp add: numeral_eq_Suc)

lemma doublings_numeral:
  "doublings (numeral n) x = (if 1 \<le> x then 0 else 1 + doublings (pred_numeral n) (2 * x))"
  by (simp add: numeral_eq_Suc)

lemmas double_eval = double_def binade_def ulp_def round_half_even_def Let_def
  halvings_numeral doublings_numeral dbl_add_def dbl_sub_def dbl_mul_def dbl_div_def

lemma replicate_numeral:
  "replicate (numeral n) x = x # replicate (pred_numeral n) x"
  by (simp add: numeral_eq_Suc)

lemma pairwise_sum_8:
  "pairwise_sum [a0, a1, a2, a3, a4, a5, a6, a7]
     = dbl_add (dbl_add (dbl_add a0 a1) (dbl_add a2 a3)) (dbl_add (dbl_add a4 a5) (dbl_add a6 a7))"
  by (subst pairwise_sum.simps) (simp add: Let_def)

text \<open>
  The example: eight samples on the first row of the grid, a grid of one row and three
  columns. The roots, the distances, the weights, and the weighted mean of each of the
  three grid points, in a chunk of one row and in a chunk of three.
\<close>

lemma dbl_sqrt_0: "dbl_sqrt 0 = 0"
  by (simp add: dbl_sqrt_def double_def)

lemma dbl_sqrt_1: "dbl_sqrt 1 = 1"
  using dbl_sqrt_eqI [of 0 1 4503599627370496] by (simp add: power2_eq_square)

lemma dbl_sqrt_2: "dbl_sqrt 2 = (6369051672525773 / 4503599627370496)"
  using dbl_sqrt_eqI [of 0 2 6369051672525773] by (simp add: power2_eq_square)

lemma dbl_sqrt_4: "dbl_sqrt 4 = 2"
  using dbl_sqrt_eqI [of 1 4 4503599627370496] by (simp add: power2_eq_square)

lemma dbl_sqrt_5: "dbl_sqrt 5 = (629397181890197 / 281474976710656)"
  using dbl_sqrt_eqI [of 1 5 5035177455121576] by (simp add: power2_eq_square)

lemma dbl_sqrt_9: "dbl_sqrt 9 = 3"
  using dbl_sqrt_eqI [of 1 9 6755399441055744] by (simp add: power2_eq_square)

lemma dbl_sqrt_10: "dbl_sqrt 10 = (7120816245988179 / 2251799813685248)"
  using dbl_sqrt_eqI [of 1 10 7120816245988179] by (simp add: power2_eq_square)

lemma dbl_sqrt_16: "dbl_sqrt 16 = 4"
  using dbl_sqrt_eqI [of 2 16 4503599627370496] by (simp add: power2_eq_square)

lemma dbl_sqrt_17: "dbl_sqrt 17 = (4642204239785223 / 1125899906842624)"
  using dbl_sqrt_eqI [of 2 17 4642204239785223] by (simp add: power2_eq_square)

lemma dbl_sqrt_25: "dbl_sqrt 25 = 5"
  using dbl_sqrt_eqI [of 2 25 5629499534213120] by (simp add: power2_eq_square)

lemma dbl_sqrt_26: "dbl_sqrt 26 = (2870492797671419 / 562949953421312)"
  using dbl_sqrt_eqI [of 2 26 5740985595342838] by (simp add: power2_eq_square)

lemma dbl_sqrt_36: "dbl_sqrt 36 = 6"
  using dbl_sqrt_eqI [of 2 36 6755399441055744] by (simp add: power2_eq_square)

lemma dbl_sqrt_37: "dbl_sqrt 37 = (6848581766208569 / 1125899906842624)"
  using dbl_sqrt_eqI [of 2 37 6848581766208569] by (simp add: power2_eq_square)

lemma dbl_sqrt_49: "dbl_sqrt 49 = 7"
  using dbl_sqrt_eqI [of 2 49 7881299347898368] by (simp add: power2_eq_square)

lemma dbl_sqrt_50: "dbl_sqrt 50 = (124395540479019 / 17592186044416)"
  using dbl_sqrt_eqI [of 2 50 7961314590657216] by (simp add: power2_eq_square)

lemmas dbl_sqrt_values =
  dbl_sqrt_0 dbl_sqrt_1 dbl_sqrt_2 dbl_sqrt_4 dbl_sqrt_5 dbl_sqrt_9
  dbl_sqrt_10 dbl_sqrt_16 dbl_sqrt_17 dbl_sqrt_25 dbl_sqrt_26
  dbl_sqrt_36 dbl_sqrt_37 dbl_sqrt_49 dbl_sqrt_50

lemma cdist_double_values:
  "cdist_double (0, 0) (0, 0) = 0"
  "cdist_double (1, 0) (0, 0) = 1"
  "cdist_double (2, 0) (0, 0) = 2"
  "cdist_double (3, 0) (0, 0) = 3"
  "cdist_double (4, 0) (0, 0) = 4"
  "cdist_double (5, 0) (0, 0) = 5"
  "cdist_double (6, 0) (0, 0) = 6"
  "cdist_double (7, 0) (0, 0) = 7"
  "cdist_double (0, 0) (1, 0) = 1"
  "cdist_double (1, 0) (1, 0) = 0"
  "cdist_double (2, 0) (1, 0) = 1"
  "cdist_double (3, 0) (1, 0) = 2"
  "cdist_double (4, 0) (1, 0) = 3"
  "cdist_double (5, 0) (1, 0) = 4"
  "cdist_double (6, 0) (1, 0) = 5"
  "cdist_double (7, 0) (1, 0) = 6"
  "cdist_double (0, 0) (2, 0) = 2"
  "cdist_double (1, 0) (2, 0) = 1"
  "cdist_double (2, 0) (2, 0) = 0"
  "cdist_double (3, 0) (2, 0) = 1"
  "cdist_double (4, 0) (2, 0) = 2"
  "cdist_double (5, 0) (2, 0) = 3"
  "cdist_double (6, 0) (2, 0) = 4"
  "cdist_double (7, 0) (2, 0) = 5"
  by (simp_all add: cdist_double_def double_eval dbl_sqrt_values)

lemma inverse_weight_double_values:
  "inverse_weight_double 1 0 = 1"
  "inverse_weight_double 1 1 = (1592262918131443 / 2251799813685248)"
  "inverse_weight_double 1 2 = (8056283928194521 / 18014398509481984)"
  "inverse_weight_double 1 3 = (5696652996790543 / 18014398509481984)"
  "inverse_weight_double 1 4 = (2184566701075399 / 9007199254740992)"
  "inverse_weight_double 1 5 = (1766457106259335 / 9007199254740992)"
  "inverse_weight_double 1 6 = (370193608984247 / 2251799813685248)"
  "inverse_weight_double 1 7 = (2547620669010309 / 18014398509481984)"
  by (simp_all add: inverse_weight_double_def double_eval dbl_sqrt_values)

lemma weighted_mean_double_0:
  "weighted_mean_double 1
     [1,
      (1592262918131443 / 2251799813685248),
      (8056283928194521 / 18014398509481984),
      (5696652996790543 / 18014398509481984),
      (2184566701075399 / 9007199254740992),
      (1766457106259335 / 9007199254740992),
      (370193608984247 / 2251799813685248),
      (2547620669010309 / 18014398509481984)]
     [1, 2, 3, 4, 5, 6, 7, 8] = (53035067910315 / 17592186044416)"
  "weighted_mean_double 3
     [1,
      (1592262918131443 / 2251799813685248),
      (8056283928194521 / 18014398509481984),
      (5696652996790543 / 18014398509481984),
      (2184566701075399 / 9007199254740992),
      (1766457106259335 / 9007199254740992),
      (370193608984247 / 2251799813685248),
      (2547620669010309 / 18014398509481984)]
     [1, 2, 3, 4, 5, 6, 7, 8] = (6788488692520319 / 2251799813685248)"
  by (simp_all add: weighted_mean_double_def np_sum_row_def sum_in_order_def pairwise_sum_8
      double_eval)

lemma weighted_mean_double_1:
  "weighted_mean_double 1
     [(1592262918131443 / 2251799813685248),
      1,
      (1592262918131443 / 2251799813685248),
      (8056283928194521 / 18014398509481984),
      (5696652996790543 / 18014398509481984),
      (2184566701075399 / 9007199254740992),
      (1766457106259335 / 9007199254740992),
      (370193608984247 / 2251799813685248)]
     [1, 2, 3, 4, 5, 6, 7, 8] = (3675358869758271 / 1125899906842624)"
  "weighted_mean_double 3
     [(1592262918131443 / 2251799813685248),
      1,
      (1592262918131443 / 2251799813685248),
      (8056283928194521 / 18014398509481984),
      (5696652996790543 / 18014398509481984),
      (2184566701075399 / 9007199254740992),
      (1766457106259335 / 9007199254740992),
      (370193608984247 / 2251799813685248)]
     [1, 2, 3, 4, 5, 6, 7, 8] = (7350717739516541 / 2251799813685248)"
  by (simp_all add: weighted_mean_double_def np_sum_row_def sum_in_order_def pairwise_sum_8
      double_eval)

lemma weighted_mean_double_2:
  "weighted_mean_double 1
     [(8056283928194521 / 18014398509481984),
      (1592262918131443 / 2251799813685248),
      1,
      (1592262918131443 / 2251799813685248),
      (8056283928194521 / 18014398509481984),
      (5696652996790543 / 18014398509481984),
      (2184566701075399 / 9007199254740992),
      (1766457106259335 / 9007199254740992)]
     [1, 2, 3, 4, 5, 6, 7, 8] = (4181052787390867 / 1125899906842624)"
  "weighted_mean_double 3
     [(8056283928194521 / 18014398509481984),
      (1592262918131443 / 2251799813685248),
      1,
      (1592262918131443 / 2251799813685248),
      (8056283928194521 / 18014398509481984),
      (5696652996790543 / 18014398509481984),
      (2184566701075399 / 9007199254740992),
      (1766457106259335 / 9007199254740992)]
     [1, 2, 3, 4, 5, 6, 7, 8] = (4181052787390867 / 1125899906842624)"
  by (simp_all add: weighted_mean_double_def np_sum_row_def sum_in_order_def pairwise_sum_8
      double_eval)

text \<open>
  Claim C1 asks for bit-identical fields for any two chunk counts. The module does not
  give them. With \<^verbatim>\<open>k = "all"\<close> the weights of a chunk come from the transpose of
  \<^verbatim>\<open>cdist\<close>: in a chunk of several grid points numpy adds the weights of a grid point
  one after the other, in a chunk of a single grid point it adds them in pairs, and the
  two sums of doubles round differently.

  Eight samples at \<open>x = 0, \<dots>, 7\<close> and \<open>y = 0\<close> with the velocities \<open>1, \<dots>, 8\<close>, the kernel
  \<^verbatim>\<open>inverse\<close>, the bandwidth 1 and a grid of one row and three columns: in one chunk the
  first grid point gets \<open>U[0] = 6788488692520319 / 2 ^ 51\<close>, the double printed as
  \<^verbatim>\<open>3.014694579537433\<close>; in eight chunks it gets the next double,
  \<open>6788488692520320 / 2 ^ 51\<close>, printed as \<^verbatim>\<open>3.0146945795374336\<close>.
\<close>

theorem chunk_count_changes_the_field:
  "fst (interpolate_sparse_vectors_double [0, 1, 2, 3, 4, 5, 6, 7] [0, 0, 0, 0, 0, 0, 0, 0]
          [1, 2, 3, 4, 5, 6, 7, 8] [1, 2, 3, 4, 5, 6, 7, 8] [1, 3] 1 1) ! 0
     = 6788488692520319 / 2 ^ 51
   \<and> fst (interpolate_sparse_vectors_double [0, 1, 2, 3, 4, 5, 6, 7] [0, 0, 0, 0, 0, 0, 0, 0]
          [1, 2, 3, 4, 5, 6, 7, 8] [1, 2, 3, 4, 5, 6, 7, 8] [1, 3] 1 8) ! 0
     = 6788488692520320 / 2 ^ 51"
  by (simp add: interpolate_sparse_vectors_double_def make_grid_def array_split_def
      interpolate_subgrid_double_def assign_slice_def upt_rec replicate_numeral
      cdist_double_values inverse_weight_double_values
      weighted_mean_double_0 [unfolded numeral_3_eq_3 One_nat_def]
      weighted_mean_double_1 [unfolded numeral_3_eq_3 One_nat_def]
      weighted_mean_double_2 [unfolded numeral_3_eq_3 One_nat_def])

section \<open>Properties: unknown kernels\<close>

lemma length_make_grid: "length (make_grid nrows ncols) = nrows * ncols"
  by (simp add: make_grid_def length_concat comp_def sum_list_triv)

lemma make_grid_nonempty:
  "0 < nrows \<Longrightarrow> 0 < ncols \<Longrightarrow> make_grid nrows ncols \<noteq> []"
  using length_make_grid [of nrows ncols] by auto

lemma unknown_subgrid:
  assumes "lower func \<noteq> ''nearest''" and "lower func \<noteq> ''inverse''"
    and "lower func \<noteq> ''gaussian''"
  shows "\<exists>msg. interpolate_subgrid func k points u v s st = Inl (ValueError msg)"
  using assms
  by (cases st) (auto simp: interpolate_subgrid_def Let_def split: neighbours.splits)

text \<open>
  Claim C8. For a kernel name that, in lower case, is none of \<^verbatim>\<open>nearest\<close>,
  \<^verbatim>\<open>inverse\<close> and \<^verbatim>\<open>gaussian\<close>, a non-empty sample set and a non-empty grid,
  \<^verbatim>\<open>interpolate_sparse_vectors\<close> raises (a \<^verbatim>\<open>ValueError\<close>) and returns no field.
\<close>

theorem unknown_kernel_raises:
  assumes "lower func \<notin> {''nearest'', ''inverse'', ''gaussian''}"
    and "x \<noteq> []" and "length y = length x" and "length u = length x"
    and "length v = length x"
    and "0 < nrows" and "0 < ncols"
  shows "\<exists>msg. interpolate_sparse_vectors x y u v [nrows, ncols] func k epsilon nchunks
           = Inl (ValueError msg)"
proof (cases "nchunks \<le> 0")
  case True
  with assms show ?thesis by (simp add: interpolate_sparse_vectors_def Let_def)
next
  case False
  then have n: "0 < nat nchunks" by simp
  let ?k = "case k of K_all \<Rightarrow> K_all | K_int kk \<Rightarrow> K_int (min kk (int (length (zip x y))))"
  let ?st = "(replicate (length (make_grid nrows ncols)) (Finite 0),
              replicate (length (make_grid nrows ncols)) (Finite 0), 0::nat, epsilon)"
  from assms(1) obtain msg where
    "interpolate_subgrid func ?k (zip x y) u v (make_grid nrows ncols) ?st = Inl (ValueError msg)"
    using unknown_subgrid [of func ?k "zip x y" u v "make_grid nrows ncols" ?st] by auto
  with False assms make_grid_nonempty [OF assms(6,7)] show ?thesis
    by (simp add: interpolate_sparse_vectors_def Let_def loop_array_split [OF n])
qed

theorem unknown_kernel_raises_witness:
  "lower ''Cubic'' \<notin> {''nearest'', ''inverse'', ''gaussian''}
   \<and> interpolate_sparse_vectors [0, 3] [0, 0] [1, 5] [2, 6] [1, 3] ''Cubic'' (K_int 20) None 5
       = Inl (ValueError ''unknown radial fucntion %s'')"
proof -
  have l: "lower ''Cubic'' \<notin> {''nearest'', ''inverse'', ''gaussian''}"
    by (simp add: lower_def lower_char_def)
  have "interpolate_sparse_vectors [0, 3] [0, 0] [1, 5] [2, 6] [1, 3] ''Cubic'' (K_int 20) None 5
       = Inl (ValueError ''unknown radial fucntion %s'')"
    by (simp add: interpolate_sparse_vectors_def make_grid_def loop_array_split
        interpolate_subgrid_def lower_def lower_char_def upt_rec Let_def)
  with unknown_kernel_raises [OF l, of "[0, 3]" "[0, 0]" "[1, 5]" "[2, 6]" 1 3 "K_int 20" None 5] l
  show ?thesis by simp
qed

section \<open>Properties: the kernels\<close>

lemma filter_upt_hd:
  assumes "filter P [0..<n] = j # js"
  shows "j < n \<and> P j \<and> (\<forall>i<j. \<not> P i)"
proof -
  from assms obtain us vs
    where s: "[0..<n] = us @ j # vs" and u: "\<forall>u\<in>set us. \<not> P u" and p: "P j"
    by (auto simp: filter_eq_Cons_iff)
  have "j \<in> set [0..<n]" unfolding s by simp
  then have jn: "j < n" by simp
  have len: "length us < n" using arg_cong [OF s, of length] by simp
  have "[0..<n] ! length us = j" unfolding s by simp
  then have lj: "length us = j" using len by simp
  have "\<not> P i" if "i < j" for i
  proof -
    have "[0..<n] ! i = us ! i" unfolding s using that lj by (simp add: nth_append)
    moreover have "[0..<n] ! i = i" using that jn by simp
    ultimately have "i \<in> set us" using that lj by (metis nth_mem)
    with u show ?thesis by blast
  qed
  with jn p show ?thesis by blast
qed

lemma tree_query_one:
  assumes "points \<noteq> []"
  shows "\<exists>j. tree_query points 1 g = [(euclidean (points ! j) g, j)] \<and> is_nearest points g j"
proof -
  let ?d = "\<lambda>i. euclidean (points ! i) g"
  let ?L = "map (\<lambda>i. (?d i, i)) [0..<length points]"
  let ?S = "sort_key fst ?L"
  have "length ?S = length points" by simp
  with assms obtain p ps where S: "?S = p # ps" by (cases ?S) auto
  obtain d0 j where p: "p = (d0, j)" by (cases p)
  have "p \<in> set ?L" using S by (metis list.set_intros(1) set_sort)
  then have jn: "j < length points" and d0: "d0 = ?d j" using p by auto
  have srt: "sorted (map fst ?S)" by (rule sorted_sort_key)
  have min: "?d j \<le> ?d i" if "i < length points" for i
  proof -
    have "(?d i, i) \<in> set ?S" using that by (simp add: image_iff)
    then have "(?d i, i) = p \<or> (?d i, i) \<in> set ps" unfolding S by auto
    with srt show ?thesis unfolding S p d0 by auto
  qed
  have "filter (\<lambda>q. fst q = d0) ?S = filter (\<lambda>q. fst q = d0) ?L"
    by (rule sort_key_stable)
  then have "p # filter (\<lambda>q. fst q = d0) ps
               = map (\<lambda>i. (?d i, i)) (filter (\<lambda>i. ?d i = d0) [0..<length points])"
    unfolding S p by (simp add: filter_map comp_def)
  then obtain js where "filter (\<lambda>i. ?d i = d0) [0..<length points] = j # js"
    unfolding p by (cases "filter (\<lambda>i. ?d i = d0) [0..<length points]") auto
  from filter_upt_hd [OF this] have first: "\<forall>i<j. ?d i \<noteq> d0" by blast
  have strict: "?d j < ?d i" if "i < j" for i
    using min [of i] first that jn d0 by (metis less_trans order_le_imp_less_or_eq)
  have "tree_query points 1 g = [(?d j, j)]"
    unfolding tree_query_def S p d0 by simp
  with jn min strict show ?thesis unfolding is_nearest_def by blast
qed


lemma assign_slice_all:
  assumes "length vals = n"
  shows "assign_slice (replicate n z) 0 vals = vals"
  using assms by (simp add: assign_slice_def)

lemma tree_query_nearest:
  assumes "(d, i) \<in> set (tree_query points k g)"
  shows "i < length points" and "d = euclidean (points ! i) g"
    and "j < length points \<Longrightarrow> j \<notin> snd ` set (tree_query points k g)
           \<Longrightarrow> d \<le> euclidean (points ! j) g"
proof -
  let ?L = "map (\<lambda>i. (euclidean (points ! i) g, i)) [0..<length points]"
  let ?S = "sort_key fst ?L"
  have "(d, i) \<in> set ?S" using assms by (auto simp: tree_query_def dest: in_set_takeD)
  then show "i < length points" and "d = euclidean (points ! i) g" by auto
  assume j: "j < length points" and out: "j \<notin> snd ` set (tree_query points k g)"
  have "(euclidean (points ! j) g, j) \<in> set ?S" using j by (simp add: image_iff)
  then have "(euclidean (points ! j) g, j) \<in> set (take k ?S) \<union> set (drop k ?S)"
    by (metis append_take_drop_id set_append)
  moreover have "(euclidean (points ! j) g, j) \<notin> set (take k ?S)"
    using out by (force simp: tree_query_def)
  ultimately have far: "(euclidean (points ! j) g, j) \<in> set (drop k ?S)" by blast
  have "sorted (map fst (take k ?S) @ map fst (drop k ?S))"
    using sorted_sort_key [of fst ?L] by (metis append_take_drop_id map_append)
  then have "\<forall>a\<in>set (take k ?S). \<forall>b\<in>set (drop k ?S). fst a \<le> fst b"
    by (simp add: sorted_append)
  with far assms show "d \<le> euclidean (points ! j) g"
    by (force simp: tree_query_def)
qed

lemma length_tree_query: "length (tree_query points k g) = min k (length points)"
  by (simp add: tree_query_def min.commute)

text \<open>
  Claim C2. With the kernel \<^verbatim>\<open>nearest\<close>, every grid point should get the velocity of its
  nearest sample for every valid neighbour count, the sentinel \<^verbatim>\<open>"all"\<close> included. With
  \<^verbatim>\<open>k = "all"\<close> the module builds no tree (line 455) and the nearest-neighbour branch
  queries it nevertheless (line 472): the call raises on the first subgrid. One sample
  \<open>(0, 0)\<close> with the velocity \<open>(1, 2)\<close> and a grid of one point.
\<close>

theorem nearest_with_all_neighbours_raises:
  "interpolate_sparse_vectors [0] [0] [1] [2] [1, 1] ''nearest'' K_all None 1
     = Inl UnboundLocalError"
  by (simp add: interpolate_sparse_vectors_def make_grid_def array_split_def
      interpolate_subgrid_def lower_def lower_char_def)

text \<open>
  With an integer \<open>k\<close> the model agrees with the claim, under its model of the tree
  query (nearest first, equal distances in the order of the indices): every grid point
  gets the velocity of the sample that is nearest to it.
\<close>

theorem nearest_gives_nearest_sample:
  assumes "lower func = ''nearest''"
    and "x \<noteq> []" and "length y = length x" and "length u = length x"
    and "length v = length x" and "0 < nchunks"
  shows "\<exists>nn. (\<forall>g. is_nearest (zip x y) g (nn g))
          \<and> interpolate_sparse_vectors x y u v [nrows, ncols] func (K_int kk) epsilon nchunks
              = Inr (make_grid nrows ncols,
                     map (\<lambda>g. Finite (u ! nn g)) (make_grid nrows ncols),
                     map (\<lambda>g. Finite (v ! nn g)) (make_grid nrows ncols))"
proof -
  let ?points = "zip x y"
  let ?grid = "make_grid nrows ncols"
  have ne: "?points \<noteq> []" using assms(2,3) by (cases x; cases y) simp_all
  from tree_query_one [OF ne]
  have "\<forall>g. \<exists>j. tree_query ?points 1 g = [(euclidean (?points ! j) g, j)]
              \<and> is_nearest ?points g j"
    by blast
  then obtain nn
    where nn: "\<And>g. tree_query ?points 1 g = [(euclidean (?points ! nn g) g, nn g)]"
    and near: "\<And>g. is_nearest ?points g (nn g)"
    by metis
  have n: "0 < nat nchunks" "\<not> nchunks \<le> 0" using assms(6) by simp_all
  have body: "interpolate_subgrid func (K_int k') ?points u v ?grid
                (replicate (length ?grid) (Finite 0), replicate (length ?grid) (Finite 0),
                 0, epsilon)
              = Inr (map (\<lambda>g. Finite (u ! nn g)) ?grid, map (\<lambda>g. Finite (v ! nn g)) ?grid,
                     length ?grid, epsilon)" for k'
    using assms(1)
    by (auto simp: interpolate_subgrid_def Let_def nn [unfolded One_nat_def] list_ex_iff
        comp_def assign_slice_all)
  have "interpolate_sparse_vectors x y u v [nrows, ncols] func (K_int kk) epsilon nchunks
          = Inr (?grid, map (\<lambda>g. Finite (u ! nn g)) ?grid,
                 map (\<lambda>g. Finite (v ! nn g)) ?grid)"
    using assms(3-5) n(2)
    by (simp add: interpolate_sparse_vectors_def Let_def loop_array_split [OF n(1)] body)
  with near show ?thesis by blast
qed

lemma foldl_fl_add_Finite:
  "foldl fl_add (Finite a) (map Finite xs) = Finite (a + sum_list xs)"
  by (induction xs arbitrary: a) (simp_all add: fl_add_def add.assoc)

lemma fl_sum_Finite: "fl_sum (map Finite xs) = Finite (sum_list xs)"
  by (simp add: fl_sum_def foldl_fl_add_Finite)

lemma inverse_weight_Finite:
  assumes "e \<noteq> 0"
  shows "inverse_weight (Finite e) d = Finite (1 / sqrt ((d / e)\<^sup>2 + 1))"
proof -
  have "0 < (d / e)\<^sup>2 + 1" by (simp add: add_nonneg_pos)
  then have "sqrt ((d / e)\<^sup>2 + 1) \<noteq> 0" and "\<not> (d / e)\<^sup>2 + 1 < 0" by simp_all
  then show ?thesis
    using assms
    by (simp add: inverse_weight_def Let_def fl_div_def fl_mul_def fl_add_def fl_sqrt_def
        power2_eq_square)
qed

lemma gaussian_weight_Finite:
  assumes "e \<noteq> 0"
  shows "gaussian_weight (Finite e) d = Finite (exp (- (1 / 2) * (d / e)\<^sup>2))"
  using assms
  by (simp add: gaussian_weight_def Let_def fl_div_def fl_mul_def fl_exp_def power2_eq_square)

lemma rbf_weight_pos: "0 < rbf_weight func e d"
proof -
  have "0 < (d / e)\<^sup>2 + 1" by (simp add: add_nonneg_pos)
  then show ?thesis by (simp add: rbf_weight_def)
qed

lemma sum_list_pos:
  assumes "xs \<noteq> []" and "\<And>x. x \<in> set xs \<Longrightarrow> 0 < f x"
  shows "0 < (\<Sum>x\<leftarrow>xs. f x :: real)"
  using assms
proof (induction xs)
  case Nil
  then show ?case by simp
next
  case (Cons a xs)
  show ?case
  proof (cases "xs = []")
    case True
    with Cons.prems show ?thesis by simp
  next
    case False
    with Cons have "0 < (\<Sum>x\<leftarrow>xs. f x)" by simp
    moreover have "0 < f a" using Cons.prems by simp
    ultimately show ?thesis by simp
  qed
qed

lemma weighted_mean_Finite:
  assumes "row \<noteq> []"
  shows "weighted_mean (map (\<lambda>(d, i). Finite (rbf_weight func e d)) row) a row
           = Finite (weighted_average func e a row)"
proof -
  let ?w = "map (\<lambda>(d, i). Finite (rbf_weight func e d)) row"
  have w: "?w = map Finite (map (\<lambda>(d, i). rbf_weight func e d) row)"
    by (simp add: comp_def case_prod_unfold)
  have num: "map (\<lambda>(wi, (d, i)). fl_mul wi (Finite (a ! i))) (zip ?w row)
               = map Finite (map (\<lambda>(d, i). rbf_weight func e d * a ! i) row)"
    by (induction row) (auto simp: fl_mul_def)
  have "0 < (\<Sum>p\<leftarrow>row. (\<lambda>(d, i). rbf_weight func e d) p)"
    using assms by (intro sum_list_pos) (auto simp: rbf_weight_pos)
  then have pos: "(\<Sum>(d, i)\<leftarrow>row. rbf_weight func e d) \<noteq> 0" by simp
  show ?thesis
    unfolding weighted_mean_def num
    unfolding w fl_sum_Finite
    using pos by (simp add: fl_div_def weighted_average_def)
qed


lemma weights_Finite:
  assumes "lower func = ''inverse'' \<or> lower func = ''gaussian''" and "e \<noteq> 0"
    and "eps = Finite e"
  shows "map (\<lambda>(d, i). if lower func = ''inverse'' then inverse_weight eps d
                        else gaussian_weight eps d) row
           = map (\<lambda>(d, i). Finite (rbf_weight func e d)) row"
  using assms
  by (auto simp: inverse_weight_Finite gaussian_weight_Finite rbf_weight_def)

lemma neighbours_of_nonempty:
  assumes "points \<noteq> []"
    and "k = K_all \<or> (\<exists>kk. k = K_int kk \<and> 2 \<le> kk \<and> 2 \<le> length points)"
  shows "neighbours_of k points g \<noteq> []"
proof (cases k)
  case K_all
  with assms(1) show ?thesis by (simp add: neighbours_of_def cdist_row_def)
next
  case (K_int kk)
  with assms(2) have "2 \<le> kk" and "2 \<le> length points" by simp_all
  then have "0 < nat (min kk (int (length points)))" using assms(1) by simp
  moreover have "0 < length (sort_key fst (map (\<lambda>i. (euclidean (points ! i) g, i))
                     [0..<length points]))"
    using assms(1) by simp
  ultimately have "0 < length (neighbours_of k points g)"
    unfolding K_int using assms(1) by (simp add: neighbours_of_def tree_query_def)
  then show ?thesis by auto
qed

text \<open>
  Claim C6. With the kernels \<^verbatim>\<open>inverse\<close> and \<^verbatim>\<open>gaussian\<close>, every grid point should get
  the weighted average of its \<open>k\<close> nearest samples for every non-empty sample set. When
  \<open>min k n\<close> is one (a single sample, or \<open>k = 1\<close>), the tree query returns
  one-dimensional arrays and the sums over \<^verbatim>\<open>axis=1\<close> of lines 499--500 raise. One
  sample \<open>(0, 0)\<close> with the velocity \<open>(1, 2)\<close>, a grid of one point, and the defaults
  \<open>k = 20\<close> and five chunks.
\<close>

theorem inverse_with_one_neighbour_raises:
  "interpolate_sparse_vectors [0] [0] [1] [2] [1, 1] ''inverse'' (K_int 20) (Some (Finite 1)) 5
     = Inl AxisError"
  by (simp add: interpolate_sparse_vectors_def make_grid_def array_split_def
      interpolate_subgrid_def lower_def lower_char_def)

text \<open>
  With all samples as neighbours, or at least two nearest ones, and a finite bandwidth
  that is not zero, the model agrees with the claim in its exact arithmetic (no rounding
  of the sums, no underflow of the weights): every grid point gets the weighted average
  of the velocities of its neighbours.
\<close>

theorem weighted_kernels_average:
  assumes kern: "lower func = ''inverse'' \<or> lower func = ''gaussian''"
    and ne: "x \<noteq> []"
    and len: "length y = length x" "length u = length x" "length v = length x"
    and chunks: "0 < nchunks"
    and nb: "k = K_all \<or> (\<exists>kk. k = K_int kk \<and> 2 \<le> kk \<and> 2 \<le> length x)"
    and bw: "bandwidth epsilon (zip x y) = Finite e" and e: "e \<noteq> 0"
  shows "interpolate_sparse_vectors x y u v [nrows, ncols] func k epsilon nchunks
           = Inr (make_grid nrows ncols,
                  map (\<lambda>g. Finite (weighted_average func e u (neighbours_of k (zip x y) g)))
                    (make_grid nrows ncols),
                  map (\<lambda>g. Finite (weighted_average func e v (neighbours_of k (zip x y) g)))
                    (make_grid nrows ncols))"
proof -
  let ?points = "zip x y"
  let ?grid = "make_grid nrows ncols"
  let ?k = "case k of K_all \<Rightarrow> K_all
            | K_int kk \<Rightarrow> K_int (min kk (int (length ?points)))"
  let ?st = "(replicate (length ?grid) (Finite 0), replicate (length ?grid) (Finite 0),
              0::nat, epsilon)"
  have pne: "?points \<noteq> []" using ne len(1) by (cases x; cases y) simp_all
  have lp: "length ?points = length x" using len(1) by simp
  have nb': "k = K_all \<or> (\<exists>kk. k = K_int kk \<and> 2 \<le> kk \<and> 2 \<le> length ?points)"
    using nb lp by simp
  note rne = neighbours_of_nonempty [OF pne nb']
  have n: "0 < nat nchunks" "\<not> nchunks \<le> 0" using chunks by simp_all
  have nl: "lower func \<noteq> ''nearest''" using kern by auto
  have rows: "(case ?k of
                 K_all \<Rightarrow> Inr (False, map (cdist_row ?points) ?grid)
               | K_int kk \<Rightarrow> if kk < 1 then Inl (ValueError ''k must be at least 1'')
                            else Inr (kk = 1, map (tree_query ?points (nat kk)) ?grid))
              = Inr (False, map (neighbours_of k ?points) ?grid)"
    using nb' by (auto simp: neighbours_of_def)
  have body: "interpolate_subgrid func ?k ?points u v ?grid ?st
              = Inr (map (\<lambda>g. Finite (weighted_average func e u (neighbours_of k ?points g)))
                       ?grid,
                     map (\<lambda>g. Finite (weighted_average func e v (neighbours_of k ?points g)))
                       ?grid,
                     length ?grid, Some (Finite e))"
    unfolding interpolate_subgrid_def bandwidth_def [symmetric]
    using nl kern
    by (simp add: rows Let_def weights_Finite [OF kern e bw] map2_same comp_def
        weighted_mean_Finite [OF rne] assign_slice_all bw)
  show ?thesis
    using len n(2)
    by (simp add: interpolate_sparse_vectors_def Let_def loop_array_split [OF n(1)] body)
qed

end
